theory Spec2Isabelle
  imports Complex_Main "HOL-Library.Word" "HOL-Library.Log_Nat"
begin

unbundle bit_operations_syntax

section \<open>Go values, errors and panics\<close>

text \<open>
  The SDK is written in Go.  A Go function of this package ends in one of three ways: it
  returns a value, it returns a non-nil \<open>error\<close>, or it panics (a run-time panic is not an
  \<open>error\<close> value: nothing in the package recovers from it, so it ends the calling
  goroutine).  All three are values of the model.
\<close>

type_synonym byte = "8 word"
type_synonym uint32 = "32 word"
type_synonym uint64 = "64 word"
type_synonym uint = "64 word" \<comment> \<open>Go's \<open>uint\<close> on a 64-bit platform\<close>

text \<open>
  An \<open>error\<close> is either one handed over by a library (\<open>rpc.ErrNotFound\<close>, or any other
  failure of the client library), or one made by \<open>fmt.Errorf\<close>: its message and the error it
  wraps with \<open>%w\<close>, which may be nil.
\<close>

datatype go_error =
    ErrNotFound
  | LibraryError string
  | Errorf string "go_error option"

datatype go_panic =
    BigDivisionByZero    \<comment> \<open>\<open>math/big\<close>: \<open>panic("division by zero")\<close>\<close>
  | IntegerDivideByZero  \<comment> \<open>run-time panic: integer divide by zero\<close>
  | BigErrNaN            \<comment> \<open>\<open>math/big\<close>: \<open>panic(ErrNaN{...})\<close>\<close>
  | NilDereference       \<comment> \<open>run-time panic: nil pointer dereference\<close>
  | IndexOutOfRange      \<comment> \<open>run-time panic: index out of range\<close>

datatype 'a result = Return 'a | Error go_error | Panic go_panic

text \<open>Sequencing: the first error or panic ends the function.\<close>

definition and_then :: "'a result \<Rightarrow> ('a \<Rightarrow> 'b result) \<Rightarrow> 'b result" where
  "and_then r f = (case r of Return x \<Rightarrow> f x | Error e \<Rightarrow> Error e | Panic p \<Rightarrow> Panic p)"

section \<open>Keys, instructions and the ledger client\<close>

text \<open>
  A public key is written in base 58, as the source writes its constants.  A Solana private
  key holds the public key it belongs to, which \<open>PublicKey()\<close> reads from it.
\<close>

type_synonym PublicKey = string

datatype PrivateKey = PrivateKey (seed: string) (PublicKey: PublicKey)

text \<open>
  Instructions, by the program they address.  The byte encoding of an instruction belongs to
  the generated client and the compute-budget package; the SDK only chooses the instruction,
  its arguments and its accounts, and that is what the constructors keep.
\<close>

datatype Instruction =
    SetComputeUnitLimit uint32
  | SetComputeUnitPrice uint64
  | CreateAssociatedTokenAccount PublicKey PublicKey PublicKey
  | PumpBuy uint64 uint64 "PublicKey list"
  | PumpSell uint64 uint64 "PublicKey list"

record PrioritizationFeeResult =
  Slot :: uint64
  PrioritizationFee :: uint64

record Account =
  Data :: "byte list"

record GetAccountInfoResult =
  Value :: "Account option"

record Transaction =
  Instructions :: "Instruction list"
  RecentBlockhash :: string
  FeePayer :: PublicKey
  Signers :: "PublicKey list"

text \<open>
  The ledger client and the Solana library are outside the repository.  Their answers are
  the fields of two records: each call of the source reads the field of the same name, so a
  theorem about every \<open>rpc_Client\<close> and every \<open>solana_lib\<close> is a theorem about every way
  the network and the library can answer.  A successful \<open>GetTokenAccountBalance\<close> is its
  \<open>Value.Amount\<close>, a successful \<open>GetLatestBlockhash\<close> its \<open>Value.Blockhash\<close>.
\<close>

record rpc_Client =
  GetAccountInfo :: "PublicKey \<Rightarrow> go_error + GetAccountInfoResult"
  GetAccountInfoWithOpts :: "PublicKey \<Rightarrow> go_error + GetAccountInfoResult"
  GetRecentPrioritizationFees :: "PublicKey list \<Rightarrow> go_error + PrioritizationFeeResult list"
  GetTokenAccountBalance :: "PublicKey \<Rightarrow> go_error + string"
  GetLatestBlockhash :: "go_error + string"
  SendTransaction :: "Transaction \<Rightarrow> go_error + string"

text \<open>
  \<open>Validate\<close> is the check of \<open>ValidateAndBuild\<close>: the error it returns, if any.  The
  instruction built is the instruction validated.
\<close>

record solana_lib =
  FindProgramAddress :: "string list \<Rightarrow> PublicKey \<Rightarrow> go_error + PublicKey"
  FindAssociatedTokenAddress :: "PublicKey \<Rightarrow> PublicKey \<Rightarrow> go_error + PublicKey"
  Validate :: "Instruction \<Rightarrow> go_error option"
  NewTransaction :: "Instruction list \<Rightarrow> string \<Rightarrow> PublicKey \<Rightarrow> go_error + Transaction"
  Sign :: "Transaction \<Rightarrow> (PublicKey \<Rightarrow> PrivateKey option) \<Rightarrow> go_error + Transaction"

subsection \<open>Addresses of the package (create.go)\<close>

definition globalPumpFunAddress :: PublicKey where
  "globalPumpFunAddress = ''4wTV1YmiEkRvAtNtsSGPtUrqRYQMe5SKy2uB4Jjaxnjf''"

definition pumpFunMintAuthority :: PublicKey where
  "pumpFunMintAuthority = ''TSLvdd1pWpHVjahSpsvCXUbgwsL3JAcvokwaKt1eokM''"

definition pumpFunEventAuthority :: PublicKey where
  "pumpFunEventAuthority = ''Ce6TQqeHC9p8KetsN6JsjHK7UTZk7nasjjnr7XxXp9F1''"

text \<open>
  \<open>pumpFunFeeRecipient\<close> is a package variable that \<open>SetDevnetMode\<close> overwrites; the functions
  that read it take its current value as the argument \<open>feeRecipient\<close>.
\<close>

definition pumpFunFeeRecipient_mainnet :: PublicKey where
  "pumpFunFeeRecipient_mainnet = ''CebN5WGQ4jvEPvsVU4EoHEpgzq1VV7AbicfhtW4xC9iM''"

definition SetDevnetMode :: "PublicKey \<Rightarrow> PublicKey" where
  "SetDevnetMode feeRecipient = ''68yFSZxzLWJXkxxRGydZ63C6mHx1NLEDWmwN9Lb5yySg''"

text \<open>Program identities of the libraries, by the names the source uses.\<close>

definition pump_ProgramID :: PublicKey where
  "pump_ProgramID = ''pump.ProgramID''"

definition system_ProgramID :: PublicKey where
  "system_ProgramID = ''system.ProgramID''"

definition token_ProgramID :: PublicKey where
  "token_ProgramID = ''token.ProgramID''"

definition associatedtokenaccount_ProgramID :: PublicKey where
  "associatedtokenaccount_ProgramID = ''associatedtokenaccount.ProgramID''"

definition TokenMetadataProgramID :: PublicKey where
  "TokenMetadataProgramID = ''solana.TokenMetadataProgramID''"

definition SysVarRentPubkey :: PublicKey where
  "SysVarRentPubkey = ''solana.SysVarRentPubkey''"

section \<open>The priority-fee estimator (create.go, getComputUnitPriceInstr)\<close>

text \<open>
  The loop \<open>for _, fee := range out { median = fee.PrioritizationFee }\<close> assigns; it does not
  add.  \<open>fee_loop\<close> is that loop, with the variable \<open>median\<close> as its first argument.
\<close>

fun fee_loop :: "uint64 \<Rightarrow> PrioritizationFeeResult list \<Rightarrow> uint64" where
  "fee_loop median [] = median"
| "fee_loop median (fee # out) = fee_loop (PrioritizationFee fee) out"

definition getComputUnitPriceInstr :: "rpc_Client \<Rightarrow> PrivateKey \<Rightarrow> Instruction result" where
  "getComputUnitPriceInstr rpcClient user =
     (case GetRecentPrioritizationFees rpcClient
             [PublicKey user, pump_ProgramID, pumpFunMintAuthority, globalPumpFunAddress,
              TokenMetadataProgramID, system_ProgramID, token_ProgramID,
              associatedtokenaccount_ProgramID, SysVarRentPubkey, pumpFunEventAuthority] of
        Inl err \<Rightarrow> Error (Errorf ''failed to get recent prioritization fees'' (Some err))
      | Inr out \<Rightarrow>
          (let length_out = (word_of_nat (length out) :: uint64);
               median = fee_loop 0 out
           in if length_out = 0 then Panic IntegerDivideByZero
              else Return (SetComputeUnitPrice (median div length_out))))"

text \<open>The arithmetic mean the specification asks for, over the sample values as numbers.\<close>

definition mean_fee :: "PrioritizationFeeResult list \<Rightarrow> nat" where
  "mean_fee out = sum_list (map (\<lambda>fee. unat (PrioritizationFee fee)) out) div length out"

text \<open>A client that answers the fee query with the given samples and fails everything else.\<close>

definition fees_client :: "PrioritizationFeeResult list \<Rightarrow> rpc_Client" where
  "fees_client out =
     \<lparr> GetAccountInfo = (\<lambda>_. Inl ErrNotFound),
       GetAccountInfoWithOpts = (\<lambda>_. Inl ErrNotFound),
       GetRecentPrioritizationFees = (\<lambda>_. Inr out),
       GetTokenAccountBalance = (\<lambda>_. Inl ErrNotFound),
       GetLatestBlockhash = Inl ErrNotFound,
       SendTransaction = (\<lambda>_. Inl ErrNotFound) \<rparr>"

definition fee_sample :: "uint64 \<Rightarrow> PrioritizationFeeResult" where
  "fee_sample v = \<lparr> Slot = 0, PrioritizationFee = v \<rparr>"

section \<open>The reserve decoder (bonding-curve.go)\<close>

text \<open>
  \<open>BondingCurveData\<close> holds three \<open>*big.Int\<close>: arbitrary-precision integers, which can be
  negative as far as the type goes.
\<close>

record BondingCurveData =
  RealTokenReserves :: int
  VirtualTokenReserves :: int
  VirtualSolReserves :: int

text \<open>The slice expression \<open>data[lo:hi]\<close>, where \<open>lo \<le> hi \<le> len(data)\<close>.\<close>

definition slice :: "'a list \<Rightarrow> nat \<Rightarrow> nat \<Rightarrow> 'a list" where
  "slice data lo hi = take (hi - lo) (drop lo data)"

text \<open>
  \<open>binary.LittleEndian.Uint64\<close>: after the bounds check \<open>_ = b[7]\<close>, the bytes are shifted into
  place and combined with \<open>|\<close>.
\<close>

definition LittleEndian_Uint64 :: "byte list \<Rightarrow> uint64 result" where
  "LittleEndian_Uint64 b =
     (if length b \<le> 7 then Panic IndexOutOfRange
      else Return (ucast (b ! 0) OR push_bit 8 (ucast (b ! 1)) OR push_bit 16 (ucast (b ! 2))
                   OR push_bit 24 (ucast (b ! 3)) OR push_bit 32 (ucast (b ! 4))
                   OR push_bit 40 (ucast (b ! 5)) OR push_bit 48 (ucast (b ! 6))
                   OR push_bit 56 (ucast (b ! 7))))"

text \<open>\<open>big.NewInt(0).SetUint64(x)\<close>: the unsigned value of \<open>x\<close>.\<close>

definition SetUint64 :: "uint64 \<Rightarrow> int" where
  "SetUint64 x = uint x"

definition fetchBondingCurve :: "rpc_Client \<Rightarrow> PublicKey \<Rightarrow> BondingCurveData result" where
  "fetchBondingCurve rpcClient bondingCurvePubKey =
     (case GetAccountInfoWithOpts rpcClient bondingCurvePubKey of
        Inl err \<Rightarrow> Error (Errorf ''FBCD: failed to get account info'' (Some err))
      | Inr accountInfo \<Rightarrow>
          (case Value accountInfo of
             None \<Rightarrow> Error (Errorf ''FBCD: failed to get account info'' None)
           | Some account \<Rightarrow>
               (let data = Data account in
                if length data < 24 then Error (Errorf ''FBCD: insufficient data length'' None)
                else
                  and_then (LittleEndian_Uint64 (slice data 0 8)) (\<lambda>r.
                  and_then (LittleEndian_Uint64 (slice data 8 16)) (\<lambda>vt.
                  and_then (LittleEndian_Uint64 (slice data 16 24)) (\<lambda>vs.
                  Return \<lparr> RealTokenReserves = SetUint64 r,
                           VirtualTokenReserves = SetUint64 vt,
                           VirtualSolReserves = SetUint64 vs \<rparr>))))))"

text \<open>
  The value of a byte string read as a little-endian number: the first byte is the least
  significant.  This is the layout the specification states, written without any bit
  operation.
\<close>

fun le_value :: "byte list \<Rightarrow> nat" where
  "le_value [] = 0"
| "le_value (b # bs) = unat b + 256 * le_value bs"

text \<open>A client that answers the account query with the given bytes.\<close>

definition account_client :: "byte list \<Rightarrow> rpc_Client" where
  "account_client bytes =
     (fees_client [])
       \<lparr> GetAccountInfoWithOpts := (\<lambda>_. Inr \<lparr> Value = Some \<lparr> Data = bytes \<rparr> \<rparr>) \<rparr>"

section \<open>Floating point and \<open>math/big\<close>\<close>

subsection \<open>Rounding\<close>

text \<open>
  Every finite floating-point number is a rational, and every operation on such numbers is
  the exact operation on rationals followed by one rounding.  \<open>floor_log2 x\<close> is the exponent
  \<open>e\<close> with \<open>2\<^sup>e \<le> x < 2\<^sup>e\<^sup>+\<^sup>1\<close> of a positive \<open>x\<close>, computed from the bit lengths of its
  numerator and denominator.
\<close>

definition floor_log2 :: "rat \<Rightarrow> int" where
  "floor_log2 x = (let (a, b) = quotient_of x; k = bitlen a - bitlen b
                   in if 2 powi k \<le> x then k else k - 1)"

text \<open>Rounding to the nearest integer, a tie going to the even one.\<close>

definition round_half_even :: "rat \<Rightarrow> int" where
  "round_half_even x = (let f = \<lfloor>x\<rfloor>; d = x - of_int f in
     if d < 1 / 2 then f else if 1 / 2 < d then f + 1 else if even f then f else f + 1)"

text \<open>
  Rounding to \<open>p\<close> significant bits with no bound on the exponent: the rounding of
  \<open>big.Float\<close> in its default mode \<open>ToNearestEven\<close> (its exponent is a 32-bit integer, out of
  reach of the numbers here).
\<close>

definition round_to_prec :: "nat \<Rightarrow> rat \<Rightarrow> rat" where
  "round_to_prec p x = (if x = 0 then 0 else
      let u = 2 powi (floor_log2 \<bar>x\<bar> - int p + 1) in of_int (round_half_even (x / u)) * u)"

subsection \<open>\<open>float64\<close>\<close>

text \<open>
  An IEEE 754 binary64 value: a finite number, an infinity (\<open>True\<close> for the negative one), or
  NaN.  The two zeros are not told apart: nothing in the package depends on the sign of a
  zero.
\<close>

datatype float64 = Finite rat | Infinity bool | NaN

text \<open>
  Rounding a rational to binary64, to nearest even: 53 significant bits, the unit in the last
  place never below \<open>2\<^sup>-\<^sup>1\<^sup>0\<^sup>7\<^sup>4\<close> (subnormal numbers), and infinity when the rounded number
  reaches \<open>2\<^sup>1\<^sup>0\<^sup>2\<^sup>4\<close>, that is, when its exponent is 1024 or more.
\<close>

definition f64_round :: "rat \<Rightarrow> float64" where
  "f64_round x = (if x = 0 then Finite 0 else
      let u = 2 powi (max (floor_log2 \<bar>x\<bar> - 52) (- 1074));
          r = of_int (round_half_even (x / u)) * u
      in if r \<noteq> 0 \<and> 1024 \<le> floor_log2 \<bar>r\<bar> then Infinity (x < 0) else Finite r)"

definition is_float64 :: "float64 \<Rightarrow> bool" where
  "is_float64 x = (case x of Finite q \<Rightarrow> f64_round q = Finite q | _ \<Rightarrow> True)"

text \<open>The conversion \<open>float64(x)\<close> of an unsigned integer, and IEEE division and subtraction.\<close>

definition float64_of_uint :: "uint \<Rightarrow> float64" where
  "float64_of_uint x = f64_round (of_nat (unat x))"

fun f64_div :: "float64 \<Rightarrow> float64 \<Rightarrow> float64" where
  "f64_div NaN y = NaN"
| "f64_div x NaN = NaN"
| "f64_div (Infinity s) (Infinity t) = NaN"
| "f64_div (Infinity s) (Finite y) = Infinity (s \<noteq> (y < 0))"
| "f64_div (Finite x) (Infinity t) = Finite 0"
| "f64_div (Finite x) (Finite y) =
     (if y = 0 then (if x = 0 then NaN else Infinity (x < 0)) else f64_round (x / y))"

fun f64_sub :: "float64 \<Rightarrow> float64 \<Rightarrow> float64" where
  "f64_sub NaN y = NaN"
| "f64_sub x NaN = NaN"
| "f64_sub (Infinity s) (Infinity t) = (if s = t then NaN else Infinity s)"
| "f64_sub (Infinity s) (Finite y) = Infinity s"
| "f64_sub (Finite x) (Infinity t) = Infinity (\<not> t)"
| "f64_sub (Finite x) (Finite y) = f64_round (x - y)"

subsection \<open>\<open>big.Int\<close> and \<open>big.Float\<close>\<close>

text \<open>
  A \<open>*big.Int\<close> is an \<open>int\<close>.  \<open>Int.Div\<close> is Euclidean division, implemented as the library
  does: the truncated quotient and remainder of \<open>QuoRem\<close>, then one step of correction when
  the remainder is negative.  It panics on a zero divisor.
\<close>

definition big_Int_Quo :: "int \<Rightarrow> int \<Rightarrow> int" where
  "big_Int_Quo x y = sgn x * sgn y * (\<bar>x\<bar> div \<bar>y\<bar>)"

definition big_Int_Div :: "int \<Rightarrow> int \<Rightarrow> int result" where
  "big_Int_Div x y =
     (if y = 0 then Panic BigDivisionByZero
      else let q = big_Int_Quo x y; r = x - y * q
           in Return (if r < 0 then (if y < 0 then q + 1 else q - 1) else q))"

definition big_Int_BitLen :: "int \<Rightarrow> nat" where
  "big_Int_BitLen x = nat (bitlen \<bar>x\<bar>)"

text \<open>
  \<open>Uint64()\<close> on a \<open>*big.Int\<close>: the low 64 bits of the absolute value; on a nil pointer it
  dereferences nil.
\<close>

definition big_Int_Uint64 :: "int option \<Rightarrow> uint64 result" where
  "big_Int_Uint64 x = (case x of None \<Rightarrow> Panic NilDereference
                               | Some v \<Rightarrow> Return (word_of_int \<bar>v\<bar>))"

text \<open>
  \<open>big.NewInt(int64(x))\<close> for an \<open>x\<close> of type \<open>uint64\<close>: the conversion to \<open>int64\<close> keeps the
  64 bits and reads them as two's complement.
\<close>

definition NewInt_int64 :: "uint64 \<Rightarrow> int" where
  "NewInt_int64 x = sint x"

text \<open>
  A \<open>big.Float\<close>: its precision in bits, and a finite value or an infinity.
\<close>

datatype big_Float = BigFinite nat rat | BigInf nat bool

text \<open>\<open>big.NewFloat\<close> panics on NaN and otherwise holds the \<open>float64\<close> exactly, at precision 53.\<close>

fun big_NewFloat :: "float64 \<Rightarrow> big_Float result" where
  "big_NewFloat NaN = Panic BigErrNaN"
| "big_NewFloat (Infinity s) = Return (BigInf 53 s)"
| "big_NewFloat (Finite q) = Return (BigFinite 53 q)"

text \<open>
  \<open>new(big.Float).SetInt(x)\<close>: the receiver's precision is 0, so it becomes the larger of
  \<open>x.BitLen()\<close> and 64, and the value is exact.
\<close>

definition big_Float_SetInt :: "int \<Rightarrow> big_Float" where
  "big_Float_SetInt x = BigFinite (max (big_Int_BitLen x) 64) (of_int x)"

text \<open>
  \<open>new(big.Float).Mul(x, y)\<close>: the receiver's precision is 0, so it becomes the larger of the
  operands' precisions; the exact product is rounded to it.  Zero times infinity panics.
\<close>

fun big_Float_Mul :: "big_Float \<Rightarrow> big_Float \<Rightarrow> big_Float result" where
  "big_Float_Mul (BigFinite px x) (BigFinite py y) =
     Return (BigFinite (max px py) (round_to_prec (max px py) (x * y)))"
| "big_Float_Mul (BigFinite px x) (BigInf py t) =
     (if x = 0 then Panic BigErrNaN else Return (BigInf (max px py) ((x < 0) \<noteq> t)))"
| "big_Float_Mul (BigInf px s) (BigFinite py y) =
     (if y = 0 then Panic BigErrNaN else Return (BigInf (max px py) (s \<noteq> (y < 0))))"
| "big_Float_Mul (BigInf px s) (BigInf py t) = Return (BigInf (max px py) (s \<noteq> t))"

text \<open>\<open>x.Int(nil)\<close>: \<open>x\<close> truncated towards zero, or nil when \<open>x\<close> is an infinity.\<close>

definition truncate_rat :: "rat \<Rightarrow> int" where
  "truncate_rat x = (if 0 \<le> x then \<lfloor>x\<rfloor> else \<lceil>x\<rceil>)"

fun big_Float_Int :: "big_Float \<Rightarrow> int option" where
  "big_Float_Int (BigFinite p x) = Some (truncate_rat x)"
| "big_Float_Int (BigInf p s) = None"

section \<open>The quote engine (buy and sell)\<close>

text \<open>
  \<open>convertSlippageBasisPointsToPercentage\<close>: the constant \<open>10e3\<close> is 10 times 10 to the 3.
\<close>

definition convertSlippageBasisPointsToPercentage :: "uint \<Rightarrow> float64" where
  "convertSlippageBasisPointsToPercentage slippageBasisPoint =
     f64_sub (Finite 1) (f64_div (float64_of_uint slippageBasisPoint) (Finite (10 * 10 ^ 3)))"

text \<open>
  \<open>calculateBuyQuote\<close>.  Its first statement turns the amount into a \<open>*big.Int\<close> through
  \<open>int64\<close>; \<open>buyQuote_big\<close> is the rest of the body, as a function of that \<open>*big.Int\<close>.  The
  result is the returned pointer: \<open>None\<close> is nil.
\<close>

definition buyQuote_big :: "int \<Rightarrow> BondingCurveData \<Rightarrow> float64 \<Rightarrow> int option result" where
  "buyQuote_big solAmountBig bondingCurve percentage =
     (let virtualSolReserves = VirtualSolReserves bondingCurve;
          virtualTokenReserves = VirtualTokenReserves bondingCurve;
          newVirtualSolReserves = virtualSolReserves + solAmountBig;
          invariant = virtualSolReserves * virtualTokenReserves
      in and_then (big_Int_Div invariant newVirtualSolReserves) (\<lambda>newVirtualTokenReserves.
         let tokensToBuy = virtualTokenReserves - newVirtualTokenReserves in
         and_then (big_NewFloat percentage) (\<lambda>percentageMultiplier.
         let tokensToBuyFloat = big_Float_SetInt tokensToBuy in
         and_then (big_Float_Mul tokensToBuyFloat percentageMultiplier) (\<lambda>finalTokens.
         Return (big_Float_Int finalTokens)))))"

definition calculateBuyQuote :: "uint64 \<Rightarrow> BondingCurveData \<Rightarrow> float64 \<Rightarrow> int option result" where
  "calculateBuyQuote solAmount bondingCurve percentage =
     buyQuote_big (NewInt_int64 solAmount) bondingCurve percentage"

text \<open>\<open>calculateSellQuote\<close>, in the same two steps.\<close>

definition sellQuote_big :: "int \<Rightarrow> BondingCurveData \<Rightarrow> float64 \<Rightarrow> int option result" where
  "sellQuote_big amount bondingCurve percentage =
     (let virtualSolReserves = VirtualSolReserves bondingCurve;
          virtualTokenReserves = VirtualTokenReserves bondingCurve;
          x = virtualSolReserves * amount;
          y = virtualTokenReserves + amount
      in and_then (big_Int_Div x y) (\<lambda>a.
         and_then (big_NewFloat percentage) (\<lambda>percentageMultiplier.
         let sol = big_Float_SetInt a in
         and_then (big_Float_Mul sol percentageMultiplier) (\<lambda>number.
         Return (big_Float_Int number)))))"

definition calculateSellQuote :: "uint64 \<Rightarrow> BondingCurveData \<Rightarrow> float64 \<Rightarrow> int option result" where
  "calculateSellQuote tokenAmount bondingCurve percentage =
     sellQuote_big (NewInt_int64 tokenAmount) bondingCurve percentage"

section \<open>The instruction assembler (buy and sell flows)\<close>

text \<open>
  Two shapes recur in the source.  \<open>from_lib msg r\<close> is a library call followed by
  \<open>if err != nil { return ..., fmt.Errorf(msg + ": %w", err) }\<close>; \<open>wrap msg r\<close> is the same
  after a call of a function of the package.
\<close>

definition from_lib :: "string \<Rightarrow> go_error + 'a \<Rightarrow> 'a result" where
  "from_lib msg r = (case r of Inl err \<Rightarrow> Error (Errorf msg (Some err)) | Inr x \<Rightarrow> Return x)"

definition wrap :: "string \<Rightarrow> 'a result \<Rightarrow> 'a result" where
  "wrap msg r = (case r of Return x \<Rightarrow> Return x
                         | Error err \<Rightarrow> Error (Errorf msg (Some err))
                         | Panic p \<Rightarrow> Panic p)"

record BondingCurvePublicKeys =
  BondingCurve :: PublicKey
  AssociatedBondingCurve :: PublicKey

text \<open>
  \<open>getBondingCurveAndAssociatedBondingCurve\<close> (create.go).  The seeds are the literal
  \<open>"bonding-curve"\<close> and the bytes of the mint.
\<close>

definition getBondingCurveAndAssociatedBondingCurve ::
    "solana_lib \<Rightarrow> PublicKey \<Rightarrow> BondingCurvePublicKeys result" where
  "getBondingCurveAndAssociatedBondingCurve lib mint =
     and_then (from_lib ''failed to derive bonding curve address''
                 (FindProgramAddress lib [''bonding-curve'', mint] pump_ProgramID))
       (\<lambda>bondingCurve.
     and_then (from_lib ''failed to derive associated bonding curve address''
                 (FindAssociatedTokenAddress lib bondingCurve mint))
       (\<lambda>associatedBondingCurve.
     Return \<lparr> BondingCurve = bondingCurve,
              AssociatedBondingCurve = associatedBondingCurve \<rparr>))"

text \<open>
  \<open>shouldCreateAta\<close>: no error from the lookup means the account is there; every error means
  it has to be created.  The function never returns an error itself.
\<close>

definition shouldCreateAta :: "rpc_Client \<Rightarrow> PublicKey \<Rightarrow> bool result" where
  "shouldCreateAta rpcClient ata =
     (case GetAccountInfo rpcClient ata of Inr info \<Rightarrow> Return False | Inl err \<Rightarrow> Return True)"

definition buy_accounts ::
    "PublicKey \<Rightarrow> PublicKey \<Rightarrow> BondingCurvePublicKeys \<Rightarrow> PublicKey \<Rightarrow> PublicKey \<Rightarrow> PublicKey list" where
  "buy_accounts feeRecipient mint bondingCurveData ata user =
     [globalPumpFunAddress, feeRecipient, mint, BondingCurve bondingCurveData,
      AssociatedBondingCurve bondingCurveData, ata, user, system_ProgramID, token_ProgramID,
      SysVarRentPubkey, pumpFunEventAuthority, pump_ProgramID]"

definition getBuyInstructions ::
    "solana_lib \<Rightarrow> PublicKey \<Rightarrow> rpc_Client \<Rightarrow> PublicKey \<Rightarrow> PublicKey \<Rightarrow> uint64 \<Rightarrow> uint
       \<Rightarrow> Instruction list result" where
  "getBuyInstructions lib feeRecipient rpcClient mint user solAmount slippageBasisPoint =
     and_then (wrap ''failed to get bonding curve data''
                 (getBondingCurveAndAssociatedBondingCurve lib mint))
       (\<lambda>bondingCurveData.
     and_then (from_lib ''failed to derive associated token account''
                 (FindAssociatedTokenAddress lib user mint))
       (\<lambda>ata.
     and_then (wrap ''can't check if we should create ATA'' (shouldCreateAta rpcClient ata))
       (\<lambda>shouldCreateATA.
     and_then (if shouldCreateATA
               then (case Validate lib (CreateAssociatedTokenAccount user user mint) of
                       Some err \<Rightarrow> Error (Errorf ''can't create associated token account'' (Some err))
                     | None \<Rightarrow> Return [CreateAssociatedTokenAccount user user mint])
               else Return [])
       (\<lambda>instructions.
     and_then (wrap ''can't fetch bonding curve''
                 (fetchBondingCurve rpcClient (BondingCurve bondingCurveData)))
       (\<lambda>bondingCurve.
     let percentage = convertSlippageBasisPointsToPercentage slippageBasisPoint in
     and_then (calculateBuyQuote solAmount bondingCurve percentage)
       (\<lambda>buy.
     and_then (big_Int_Uint64 buy)
       (\<lambda>buyAmount.
     Return (instructions @
               [PumpBuy buyAmount solAmount
                  (buy_accounts feeRecipient mint bondingCurveData ata user)]))))))))"

text \<open>
  \<open>BuyToken\<close>, in two parts: the instruction list it hands to \<open>solana.NewTransaction\<close>, and
  the rest (block hash, transaction, signature, submission).  The parameter \<open>wsClient\<close> is
  not used by the source.
\<close>

definition BuyToken_instructions ::
    "solana_lib \<Rightarrow> PublicKey \<Rightarrow> rpc_Client \<Rightarrow> PrivateKey \<Rightarrow> PublicKey \<Rightarrow> uint64 \<Rightarrow> uint
       \<Rightarrow> Instruction list result" where
  "BuyToken_instructions lib feeRecipient rpcClient user mint buyAmountLamports slippageBasisPoint =
     (let instructions = [SetComputeUnitLimit 250000, SetComputeUnitPrice 100000] in
      and_then (wrap ''failed to get buy instructions''
                  (getBuyInstructions lib feeRecipient rpcClient mint (PublicKey user)
                     buyAmountLamports slippageBasisPoint))
        (\<lambda>buyInstructions. Return (instructions @ buyInstructions)))"

definition send_instructions ::
    "solana_lib \<Rightarrow> rpc_Client \<Rightarrow> PrivateKey \<Rightarrow> Instruction list \<Rightarrow> string result" where
  "send_instructions lib rpcClient user instructions =
     and_then (from_lib ''error while getting recent block hash'' (GetLatestBlockhash rpcClient))
       (\<lambda>recent.
     and_then (from_lib ''error while creating new transaction''
                 (NewTransaction lib instructions recent (PublicKey user)))
       (\<lambda>tx.
     and_then (from_lib ''can't sign transaction''
                 (Sign lib tx (\<lambda>key. if PublicKey user = key then Some user else None)))
       (\<lambda>signed.
     and_then (from_lib ''can't send transaction'' (SendTransaction rpcClient signed))
       (\<lambda>sig. Return sig))))"

definition BuyToken ::
    "solana_lib \<Rightarrow> PublicKey \<Rightarrow> rpc_Client \<Rightarrow> PrivateKey \<Rightarrow> PublicKey \<Rightarrow> uint64 \<Rightarrow> uint
       \<Rightarrow> string result" where
  "BuyToken lib feeRecipient rpcClient user mint buyAmountLamports slippageBasisPoint =
     and_then (BuyToken_instructions lib feeRecipient rpcClient user mint buyAmountLamports
                 slippageBasisPoint)
       (send_instructions lib rpcClient user)"

text \<open>
  \<open>strconv.Atoi\<close> on a 64-bit platform: an optional sign, then one or more decimal digits;
  a syntax error otherwise, and a range error outside \<open>int64\<close>.
\<close>

definition is_digit :: "char \<Rightarrow> bool" where
  "is_digit c = (48 \<le> (of_char c :: nat) \<and> (of_char c :: nat) \<le> 57)"

fun digits_value :: "nat \<Rightarrow> string \<Rightarrow> nat" where
  "digits_value acc [] = acc"
| "digits_value acc (c # cs) = digits_value (10 * acc + (of_char c - 48)) cs"

definition strconv_Atoi :: "string \<Rightarrow> go_error + int" where
  "strconv_Atoi s =
     (let (neg, ds) = (case s of
                         [] \<Rightarrow> (False, [])
                       | c # cs \<Rightarrow> if c = CHR ''-'' then (True, cs)
                                  else if c = CHR ''+'' then (False, cs) else (False, s))
      in if ds = [] \<or> \<not> list_all is_digit ds
         then Inl (LibraryError ''strconv.Atoi: invalid syntax'')
         else let n = int (digits_value 0 ds); v = (if neg then - n else n)
              in if v < - (2 ^ 63) \<or> 2 ^ 63 \<le> v
                 then Inl (LibraryError ''strconv.Atoi: value out of range'')
                 else Inr v)"

definition sell_accounts ::
    "PublicKey \<Rightarrow> PublicKey \<Rightarrow> BondingCurvePublicKeys \<Rightarrow> PublicKey \<Rightarrow> PublicKey \<Rightarrow> PublicKey list" where
  "sell_accounts feeRecipient mint bondingCurveData ata user =
     [globalPumpFunAddress, feeRecipient, mint, BondingCurve bondingCurveData,
      AssociatedBondingCurve bondingCurveData, ata, user, system_ProgramID,
      associatedtokenaccount_ProgramID, token_ProgramID, pumpFunEventAuthority, pump_ProgramID]"

text \<open>
  \<open>getSellInstructions\<close>.  With \<open>all\<close>, the amount is replaced by the balance of the seller's
  associated token account: the decimal string of the ledger, parsed by \<open>strconv.Atoi\<close> and
  converted with \<open>uint64(amount)\<close>.
\<close>

definition getSellInstructions ::
    "solana_lib \<Rightarrow> PublicKey \<Rightarrow> rpc_Client \<Rightarrow> PrivateKey \<Rightarrow> PublicKey \<Rightarrow> uint64 \<Rightarrow> uint \<Rightarrow> bool
       \<Rightarrow> Instruction result" where
  "getSellInstructions lib feeRecipient rpcClient user mint sellTokenAmount slippageBasisPoint all =
     and_then (from_lib ''failed to derive associated token account''
                 (FindAssociatedTokenAddress lib (PublicKey user) mint))
       (\<lambda>ata.
     and_then (if all
               then and_then (from_lib ''can't get amount of token in balance''
                                (GetTokenAccountBalance rpcClient ata))
                      (\<lambda>tokenAccounts.
                    and_then (from_lib ''can't convert token amount to integer''
                                (strconv_Atoi tokenAccounts))
                      (\<lambda>amount. Return (word_of_int amount :: uint64)))
               else Return sellTokenAmount)
       (\<lambda>sellTokenAmount.
     and_then (wrap ''can't get bonding curve data''
                 (getBondingCurveAndAssociatedBondingCurve lib mint))
       (\<lambda>bondingCurveData.
     and_then (wrap ''can't fetch bonding curve''
                 (fetchBondingCurve rpcClient (BondingCurve bondingCurveData)))
       (\<lambda>bondingCurve.
     let percentage = convertSlippageBasisPointsToPercentage slippageBasisPoint in
     and_then (calculateSellQuote sellTokenAmount bondingCurve percentage)
       (\<lambda>minSolOutput.
     and_then (big_Int_Uint64 minSolOutput)
       (\<lambda>minSol.
     let sellInstr = PumpSell sellTokenAmount minSol
                       (sell_accounts feeRecipient mint bondingCurveData ata (PublicKey user))
     in case Validate lib sellInstr of
          Some err \<Rightarrow> Error (Errorf ''can't validate and build sell instruction'' (Some err))
        | None \<Rightarrow> Return sellInstr))))))"

definition SellToken_instructions ::
    "solana_lib \<Rightarrow> PublicKey \<Rightarrow> rpc_Client \<Rightarrow> PrivateKey \<Rightarrow> PublicKey \<Rightarrow> uint64 \<Rightarrow> uint \<Rightarrow> bool
       \<Rightarrow> Instruction list result" where
  "SellToken_instructions lib feeRecipient rpcClient user mint sellTokenAmount slippageBasisPoint all =
     (let instructions = [SetComputeUnitLimit 250000, SetComputeUnitPrice 10000] in
      and_then (wrap ''failed to get sell instructions''
                  (getSellInstructions lib feeRecipient rpcClient user mint sellTokenAmount
                     slippageBasisPoint all))
        (\<lambda>sellInstructions. Return (instructions @ [sellInstructions])))"

definition SellToken ::
    "solana_lib \<Rightarrow> PublicKey \<Rightarrow> rpc_Client \<Rightarrow> PrivateKey \<Rightarrow> PublicKey \<Rightarrow> uint64 \<Rightarrow> uint \<Rightarrow> bool
       \<Rightarrow> string result" where
  "SellToken lib feeRecipient rpcClient user mint sellTokenAmount slippageBasisPoint all =
     and_then (SellToken_instructions lib feeRecipient rpcClient user mint sellTokenAmount
                 slippageBasisPoint all)
       (send_instructions lib rpcClient user)"

subsection \<open>A library and a ledger for the examples\<close>

text \<open>
  A library whose derivations and validations succeed, and a ledger that holds a bonding
  curve with real reserve 0, virtual token reserve 1000000000 and virtual SOL reserve
  1000000, answers the lookup of the buyer's token account with \<open>lookup\<close> and the balance
  query with \<open>balance\<close>.
\<close>

definition example_lib :: solana_lib where
  "example_lib =
     \<lparr> FindProgramAddress = (\<lambda>seeds program. Inr ''curve''),
       FindAssociatedTokenAddress = (\<lambda>wallet mint. Inr (''ata:'' @ wallet)),
       Validate = (\<lambda>instruction. None),
       NewTransaction = (\<lambda>instructions blockhash payer.
          Inr \<lparr> Instructions = instructions, RecentBlockhash = blockhash, FeePayer = payer,
                Signers = [] \<rparr>),
       Sign = (\<lambda>tx getter. Inr (tx \<lparr> Signers := [FeePayer tx] \<rparr>)) \<rparr>"

definition curve_bytes :: "byte list" where
  "curve_bytes = [0, 0, 0, 0, 0, 0, 0, 0, 0, 202, 154, 59, 0, 0, 0, 0, 64, 66, 15, 0, 0, 0, 0, 0]"

definition example_client ::
    "go_error + GetAccountInfoResult \<Rightarrow> go_error + string \<Rightarrow> rpc_Client" where
  "example_client lookup balance =
     \<lparr> GetAccountInfo = (\<lambda>account. lookup),
       GetAccountInfoWithOpts = (\<lambda>account. Inr \<lparr> Value = Some \<lparr> Data = curve_bytes \<rparr> \<rparr>),
       GetRecentPrioritizationFees = (\<lambda>accounts. Inr []),
       GetTokenAccountBalance = (\<lambda>account. balance),
       GetLatestBlockhash = Inr ''blockhash'',
       SendTransaction = (\<lambda>tx. Inr ''signature'') \<rparr>"

text \<open>
  The same ledger with a bonding-curve account of 24 zero bytes: a curve that was never
  initialised.
\<close>

definition zero_bytes :: "byte list" where
  "zero_bytes = [0, 0, 0, 0, 0, 0, 0, 0, 0, 0, 0, 0, 0, 0, 0, 0, 0, 0, 0, 0, 0, 0, 0, 0]"

definition zero_curve_client ::
    "go_error + GetAccountInfoResult \<Rightarrow> go_error + string \<Rightarrow> rpc_Client" where
  "zero_curve_client lookup balance =
     (example_client lookup balance)
       \<lparr> GetAccountInfoWithOpts := (\<lambda>account. Inr \<lparr> Value = Some \<lparr> Data = zero_bytes \<rparr> \<rparr>) \<rparr>"

definition example_user :: PrivateKey where
  "example_user = PrivateKey ''seed'' ''user''"

subsection \<open>The quote formulas of the specification\<close>

text \<open>
  The slippage step as the specification words it: the amount times the multiplier "via a
  float intermediate then truncated to integer".  The float is the one of the reference: a
  \<open>big.Float\<close> whose precision is the larger of 64 and the amount's bit length.
\<close>

definition float_mul_trunc :: "int \<Rightarrow> rat \<Rightarrow> int" where
  "float_mul_trunc a m =
     truncate_rat (round_to_prec (max (big_Int_BitLen a) 64) (of_int a * m))"

text \<open>Integer division truncating towards zero, as the specification has it.\<close>

definition trunc_div :: "int \<Rightarrow> int \<Rightarrow> int" where
  "trunc_div a b = sgn a * sgn b * (\<bar>a\<bar> div \<bar>b\<bar>)"

text \<open>
  The buy quote, steps 1 to 5 of the specification, and the sell quote, steps 1 to 4.  The
  amounts are the numbers the caller means.  The division of the buy quote truncates towards
  zero, as step 3 says; the division of the sell quote is the floor.
\<close>

definition quoteBuy :: "int \<Rightarrow> BondingCurveData \<Rightarrow> rat \<Rightarrow> int" where
  "quoteBuy solIn snapshot toleranceMultiplier =
     (let newSol = VirtualSolReserves snapshot + solIn;
          invariant = VirtualSolReserves snapshot * VirtualTokenReserves snapshot;
          newToken = trunc_div invariant newSol;
          rawTokensOut = VirtualTokenReserves snapshot - newToken
      in float_mul_trunc rawTokensOut toleranceMultiplier)"

definition quoteSell :: "int \<Rightarrow> BondingCurveData \<Rightarrow> rat \<Rightarrow> int" where
  "quoteSell tokensIn snapshot toleranceMultiplier =
     (let x = VirtualSolReserves snapshot * tokensIn;
          y = VirtualTokenReserves snapshot + tokensIn;
          rawSolOut = x div y
      in float_mul_trunc rawSolOut toleranceMultiplier)"

text \<open>The slippage conversion as the specification writes it: \<open>1.0 - bp/10000.0\<close>.\<close>

definition basisPointsToMultiplier :: "uint \<Rightarrow> float64" where
  "basisPointsToMultiplier bp = f64_sub (Finite 1) (f64_div (float64_of_uint bp) (Finite 10000))"

text \<open>
  The round trip of the specification's first testable property: buy for \<open>solIn\<close> at
  multiplier 1.0, hand the returned token amount to the sell quote as the assembler hands a
  quote to an instruction (\<open>Uint64()\<close>), and sell at the same snapshot, again at 1.0.
\<close>

definition buy_then_sell :: "uint64 \<Rightarrow> BondingCurveData \<Rightarrow> int option result" where
  "buy_then_sell solIn bc =
     and_then (calculateBuyQuote solIn bc (Finite 1)) (\<lambda>tokens.
     and_then (big_Int_Uint64 tokens) (\<lambda>tokenAmount.
     calculateSellQuote tokenAmount bc (Finite 1)))"

text \<open>A snapshot with the given virtual reserves, for the examples.\<close>

definition snapshot :: "int \<Rightarrow> int \<Rightarrow> BondingCurveData" where
  "snapshot virtualSol virtualToken =
     \<lparr> RealTokenReserves = 0, VirtualTokenReserves = virtualToken,
       VirtualSolReserves = virtualSol \<rparr>"

text \<open>The 24-byte buffer of the specification's example: the numbers 1, 2 and 3.\<close>

definition buffer_1_2_3 :: "byte list" where
  "buffer_1_2_3 = [1, 0, 0, 0, 0, 0, 0, 0, 2, 0, 0, 0, 0, 0, 0, 0, 3, 0, 0, 0, 0, 0, 0, 0]"

section \<open>Properties of the priority-fee estimator\<close>

lemma fee_loop_last:
  "fee_loop median out = (if out = [] then median else PrioritizationFee (last out))"
  by (induction out arbitrary: median) auto

text \<open>
  What the estimator computes on a successful query: the last sample divided by the number of
  samples, and a run-time panic when there is none.
\<close>

lemma getComputUnitPriceInstr_last:
  assumes "GetRecentPrioritizationFees rpcClient
             [PublicKey user, pump_ProgramID, pumpFunMintAuthority, globalPumpFunAddress,
              TokenMetadataProgramID, system_ProgramID, token_ProgramID,
              associatedtokenaccount_ProgramID, SysVarRentPubkey, pumpFunEventAuthority] = Inr out"
    and "out \<noteq> []" and "length out < 2 ^ 64"
  shows "getComputUnitPriceInstr rpcClient user =
           Return (SetComputeUnitPrice
                     (PrioritizationFee (last out) div word_of_nat (length out)))"
proof -
  have "(word_of_nat (length out) :: uint64) \<noteq> 0"
  proof
    assume "(word_of_nat (length out) :: uint64) = 0"
    then have "unat (word_of_nat (length out) :: uint64) = 0" by simp
    moreover have "unat (word_of_nat (length out) :: uint64) = length out"
      using assms(3) by (simp add: unat_of_nat)
    ultimately show False using assms(2) by simp
  qed
  then show ?thesis
    using assms(1,2) by (simp add: getComputUnitPriceInstr_def fee_loop_last Let_def)
qed

text \<open>
  C3.  The specification asks for the arithmetic mean of all samples, and for a
  \<open>NoFeeDataError\<close> on an empty sequence.  On the two samples 1 and 3 the mean is 2; the
  estimator returns the price 1 (the last sample, 3, divided by the count, 2).  On the empty
  sequence it divides by zero and panics.
\<close>

theorem getComputUnitPriceInstr_not_mean:
  "getComputUnitPriceInstr (fees_client [fee_sample 1, fee_sample 3]) (PrivateKey ''s'' ''user'')
     = Return (SetComputeUnitPrice 1)
   \<and> mean_fee [fee_sample 1, fee_sample 3] = 2
   \<and> getComputUnitPriceInstr (fees_client []) (PrivateKey ''s'' ''user'')
     = Panic IntegerDivideByZero"
proof -
  have "(4::nat) div Suc (Suc 0) = 2" by (simp add: numeral_2_eq_2 [symmetric])
  then show ?thesis
    by (simp add: getComputUnitPriceInstr_def fees_client_def fee_sample_def mean_fee_def)
qed

section \<open>Properties of the reserve decoder\<close>

lemma and_then_simps [simp]:
  "and_then (Return x) f = f x"
  "and_then (Error e) f = Error e"
  "and_then (Panic p) f = Panic p"
  by (simp_all add: and_then_def)

text \<open>Bits that do not overlap add up: the step from \<open>|\<close> and \<open><<\<close> to arithmetic.\<close>

lemma nat_or_shift:
  assumes "a < 2 ^ k"
  shows "(a::nat) OR push_bit k c = a + push_bit k c"
proof -
  from assms have a: "take_bit k a = a" by (simp add: take_bit_nat_eq_self)
  have "a + push_bit k c = a OR push_bit k c"
  proof (rule disjunctive_add)
    fix n
    have "bit a n \<Longrightarrow> n < k" by (subst (asm) a [symmetric]) (simp add: bit_simps)
    moreover have "bit (push_bit k c) n \<Longrightarrow> k \<le> n" by (simp add: bit_simps)
    ultimately show "\<not> bit a n \<or> \<not> bit (push_bit k c) n" by fastforce
  qed
  then show ?thesis by simp
qed

lemma le_step:
  assumes "unat (w::uint64) < 2 ^ 56"
  shows "unat (ucast (b::byte) OR push_bit 8 w) = unat b + 256 * unat w"
proof -
  have b: "unat b < 2 ^ 8" using unsigned_less [of b] by simp
  have "unat (ucast b :: uint64) = unat b"
    using b by (simp add: unsigned_ucast_eq take_bit_nat_eq_self)
  moreover have "unat (push_bit 8 w) = push_bit 8 (unat w)"
  proof -
    have "push_bit 8 (unat w) < 2 ^ 64" using assms by (simp add: push_bit_eq_mult)
    then show ?thesis by (simp add: unsigned_push_bit_eq take_bit_nat_eq_self)
  qed
  ultimately have "unat (ucast b OR push_bit 8 w) = unat b OR push_bit 8 (unat w)"
    by (simp add: unsigned_or_eq)
  also have "\<dots> = unat b + push_bit 8 (unat w)" using b by (rule nat_or_shift)
  finally show ?thesis by (simp add: push_bit_eq_mult)
qed

lemma le_step_bound:
  assumes "unat (w::uint64) < 2 ^ k" "k \<le> 56"
  shows "unat (ucast (b::byte) OR push_bit 8 w) < 2 ^ (k + 8)"
proof -
  have b: "unat b < 2 ^ 8" using unsigned_less [of b] by simp
  have "(2::nat) ^ k \<le> 2 ^ 56" using assms(2) by (rule power_increasing) simp
  then have "unat w < 2 ^ 56" using assms(1) by (rule less_le_trans [rotated])
  then have "unat (ucast b OR push_bit 8 w) = unat b + 256 * unat w" by (rule le_step)
  moreover have "unat b + 256 * unat w < 256 * 2 ^ k" using b assms(1) by simp
  ultimately show ?thesis by (simp add: power_add)
qed

lemma le_nested:
  "(ucast b0 OR push_bit 8 (ucast b1) OR push_bit 16 (ucast b2)
                   OR push_bit 24 (ucast b3) OR push_bit 32 (ucast b4)
                   OR push_bit 40 (ucast b5) OR push_bit 48 (ucast b6)
                   OR push_bit 56 (ucast b7) :: uint64) =
   ucast (b0::byte) OR push_bit 8 (ucast (b1::byte) OR push_bit 8 (ucast (b2::byte) OR push_bit 8 (ucast (b3::byte) OR
     push_bit 8 (ucast (b4::byte) OR push_bit 8 (ucast (b5::byte) OR push_bit 8 (ucast (b6::byte) OR push_bit 8 (ucast (b7::byte))))))))"
  by (simp add: push_bit_or push_bit_push_bit)

lemma le_value_8: "unat (ucast b0 OR push_bit 8 (ucast b1) OR push_bit 16 (ucast b2)
                   OR push_bit 24 (ucast b3) OR push_bit 32 (ucast b4)
                   OR push_bit 40 (ucast b5) OR push_bit 48 (ucast b6)
                   OR push_bit 56 (ucast b7) :: uint64) = le_value [b0,b1,b2,b3,b4,b5,b6,b7::byte]"
proof -
  define w7 :: uint64 where "w7 = ucast b7"
  define w6 :: uint64 where "w6 = ucast b6 OR push_bit 8 w7"
  define w5 :: uint64 where "w5 = ucast b5 OR push_bit 8 w6"
  define w4 :: uint64 where "w4 = ucast b4 OR push_bit 8 w5"
  define w3 :: uint64 where "w3 = ucast b3 OR push_bit 8 w4"
  define w2 :: uint64 where "w2 = ucast b2 OR push_bit 8 w3"
  define w1 :: uint64 where "w1 = ucast b1 OR push_bit 8 w2"
  have b7: "unat b7 < 2 ^ 8" using unsigned_less [of b7] by simp
  have v7: "unat w7 = unat b7"
    using b7 by (simp add: w7_def unsigned_ucast_eq take_bit_nat_eq_self)
  have l7: "unat w7 < 2 ^ 8" using b7 v7 by simp
  have l6: "unat w6 < 2 ^ (8 + 8)" unfolding w6_def using l7 by (rule le_step_bound) simp
  have l5: "unat w5 < 2 ^ (8 + 8 + 8)" unfolding w5_def using l6 by (rule le_step_bound) simp
  have l4: "unat w4 < 2 ^ (8 + 8 + 8 + 8)" unfolding w4_def using l5 by (rule le_step_bound) simp
  have l3: "unat w3 < 2 ^ (8 + 8 + 8 + 8 + 8)" unfolding w3_def using l4 by (rule le_step_bound) simp
  have l2: "unat w2 < 2 ^ (8 + 8 + 8 + 8 + 8 + 8)" unfolding w2_def using l3 by (rule le_step_bound) simp
  have l1: "unat w1 < 2 ^ (8 + 8 + 8 + 8 + 8 + 8 + 8)" unfolding w1_def using l2 by (rule le_step_bound) simp
  have v6: "unat w6 = unat b6 + 256 * unat w7" unfolding w6_def using l7 by (intro le_step) simp
  have v5: "unat w5 = unat b5 + 256 * unat w6" unfolding w5_def using l6 by (intro le_step) simp
  have v4: "unat w4 = unat b4 + 256 * unat w5" unfolding w4_def using l5 by (intro le_step) simp
  have v3: "unat w3 = unat b3 + 256 * unat w4" unfolding w3_def using l4 by (intro le_step) simp
  have v2: "unat w2 = unat b2 + 256 * unat w3" unfolding w2_def using l3 by (intro le_step) simp
  have v1: "unat w1 = unat b1 + 256 * unat w2" unfolding w1_def using l2 by (intro le_step) simp
  have v0: "unat (ucast b0 OR push_bit 8 w1) = unat b0 + 256 * unat w1" using l1 by (intro le_step) simp
  have "(ucast b0 OR push_bit 8 (ucast b1) OR push_bit 16 (ucast b2)
                   OR push_bit 24 (ucast b3) OR push_bit 32 (ucast b4)
                   OR push_bit 40 (ucast b5) OR push_bit 48 (ucast b6)
                   OR push_bit 56 (ucast b7) :: uint64) = ucast b0 OR push_bit 8 w1"
    unfolding w1_def w2_def w3_def w4_def w5_def w6_def w7_def by (rule le_nested)
  then show ?thesis
    using v0 v1 v2 v3 v4 v5 v6 v7 by simp
qed

lemma list8:
  assumes "length b = 8"
  shows "b = [b ! 0, b ! 1, b ! 2, b ! 3, b ! 4, b ! 5, b ! 6, b ! 7]"
proof (rule nth_equalityI)
  show "length b = length [b ! 0, b ! 1, b ! 2, b ! 3, b ! 4, b ! 5, b ! 6, b ! 7]"
    using assms by simp
next
  fix i assume "i < length b"
  then have "i < 8" using assms by simp
  then have "i = 0 \<or> i = 1 \<or> i = 2 \<or> i = 3 \<or> i = 4 \<or> i = 5 \<or> i = 6 \<or> i = 7" by arith
  then show "b ! i = [b ! 0, b ! 1, b ! 2, b ! 3, b ! 4, b ! 5, b ! 6, b ! 7] ! i"
    by (elim disjE) simp_all
qed

lemma LittleEndian_Uint64_value:
  assumes "length b = 8"
  shows "\<exists>w. LittleEndian_Uint64 b = Return w \<and> uint w = int (le_value b)"
proof -
  have "int (le_value b) = int (le_value [b ! 0, b ! 1, b ! 2, b ! 3, b ! 4, b ! 5, b ! 6, b ! 7])"
    using list8 [OF assms] by simp
  also have "\<dots> = int (unat (ucast (b ! 0) OR push_bit 8 (ucast (b ! 1)) OR push_bit 16 (ucast (b ! 2))
                   OR push_bit 24 (ucast (b ! 3)) OR push_bit 32 (ucast (b ! 4))
                   OR push_bit 40 (ucast (b ! 5)) OR push_bit 48 (ucast (b ! 6))
                   OR push_bit 56 (ucast (b ! 7)) :: uint64))"
    by (simp only: le_value_8)
  finally show ?thesis
    using assms by (simp add: LittleEndian_Uint64_def)
qed

lemma fetchBondingCurve_long:
  assumes "GetAccountInfoWithOpts rpcClient pk = Inr \<lparr> Value = Some \<lparr> Data = data \<rparr> \<rparr>"
    and "24 \<le> length data"
  shows "fetchBondingCurve rpcClient pk =
           Return \<lparr> RealTokenReserves = int (le_value (take 8 data)),
                    VirtualTokenReserves = int (le_value (take 8 (drop 8 data))),
                    VirtualSolReserves = int (le_value (take 8 (drop 16 data))) \<rparr>"
proof -
  obtain r where r: "LittleEndian_Uint64 (slice data 0 8) = Return r"
      "uint r = int (le_value (take 8 data))"
    using LittleEndian_Uint64_value [of "slice data 0 8"] assms(2) by (auto simp: slice_def)
  obtain vt where vt: "LittleEndian_Uint64 (slice data 8 16) = Return vt"
      "uint vt = int (le_value (take 8 (drop 8 data)))"
    using LittleEndian_Uint64_value [of "slice data 8 16"] assms(2) by (auto simp: slice_def)
  obtain vs where vs: "LittleEndian_Uint64 (slice data 16 24) = Return vs"
      "uint vs = int (le_value (take 8 (drop 16 data)))"
    using LittleEndian_Uint64_value [of "slice data 16 24"] assms(2) by (auto simp: slice_def)
  show ?thesis
    using assms r vt vs by (simp add: fetchBondingCurve_def SetUint64_def)
qed

text \<open>
  C5.  When the ledger hands over account data, the decoder fails with the error
  "FBCD: insufficient data length" exactly when there are fewer than 24 bytes.  Otherwise it
  returns the three reserves as the little-endian values of bytes 0-7 (real token), 8-15
  (virtual token) and 16-23 (virtual SOL), and whatever follows byte 23 changes nothing.
\<close>

theorem fetchBondingCurve_decodes:
  assumes "GetAccountInfoWithOpts rpcClient pk = Inr \<lparr> Value = Some \<lparr> Data = data \<rparr> \<rparr>"
  shows "(fetchBondingCurve rpcClient pk = Error (Errorf ''FBCD: insufficient data length'' None)
            \<longleftrightarrow> length data < 24)
       \<and> (\<forall>e. fetchBondingCurve rpcClient pk = Error e
            \<longrightarrow> e = Errorf ''FBCD: insufficient data length'' None)
       \<and> (24 \<le> length data \<longrightarrow>
            fetchBondingCurve rpcClient pk =
              Return \<lparr> RealTokenReserves = int (le_value (take 8 data)),
                       VirtualTokenReserves = int (le_value (take 8 (drop 8 data))),
                       VirtualSolReserves = int (le_value (take 8 (drop 16 data))) \<rparr>)
       \<and> (24 \<le> length data \<longrightarrow>
            (\<forall>rpcClient' trailing.
               GetAccountInfoWithOpts rpcClient' pk
                 = Inr \<lparr> Value = Some \<lparr> Data = take 24 data @ trailing \<rparr> \<rparr>
               \<longrightarrow> fetchBondingCurve rpcClient' pk = fetchBondingCurve rpcClient pk))"
proof (cases "length data < 24")
  case True
  then have "fetchBondingCurve rpcClient pk = Error (Errorf ''FBCD: insufficient data length'' None)"
    using assms by (simp add: fetchBondingCurve_def)
  with True show ?thesis by simp
next
  case False
  then have long: "24 \<le> length data" by simp
  note ret = fetchBondingCurve_long [OF assms long]
  have "fetchBondingCurve rpcClient' pk = fetchBondingCurve rpcClient pk"
    if "GetAccountInfoWithOpts rpcClient' pk
          = Inr \<lparr> Value = Some \<lparr> Data = take 24 data @ trailing \<rparr> \<rparr>"
    for rpcClient' trailing
  proof -
    have "24 \<le> length (take 24 data @ trailing)" using long by simp
    from fetchBondingCurve_long [OF that this] show ?thesis
      using long by (simp add: ret drop_take)
  qed
  with False ret show ?thesis by simp
qed

text \<open>
  The theorem at the two buffers of the specification: 24 bytes holding 1, 2 and 3, and 23
  bytes.
\<close>

theorem fetchBondingCurve_decodes_witness:
  "fetchBondingCurve (account_client buffer_1_2_3) ''curve''
     = Return \<lparr> RealTokenReserves = 1, VirtualTokenReserves = 2, VirtualSolReserves = 3 \<rparr>
   \<and> fetchBondingCurve (account_client (replicate 23 0)) ''curve''
     = Error (Errorf ''FBCD: insufficient data length'' None)"
proof -
  have a: "GetAccountInfoWithOpts (account_client buffer_1_2_3) ''curve''
           = Inr \<lparr> Value = Some \<lparr> Data = buffer_1_2_3 \<rparr> \<rparr>"
    by (simp add: account_client_def)
  have b: "GetAccountInfoWithOpts (account_client (replicate 23 0)) ''curve''
           = Inr \<lparr> Value = Some \<lparr> Data = replicate 23 0 \<rparr> \<rparr>"
    by (simp add: account_client_def)
  have la: "24 \<le> length buffer_1_2_3" by (simp add: buffer_1_2_3_def)
  have lb: "length (replicate 23 (0::byte)) < 24" by simp
  have va: "le_value (take 8 buffer_1_2_3) = 1" "le_value (take 8 (drop 8 buffer_1_2_3)) = 2"
    "le_value (take 8 (drop 16 buffer_1_2_3)) = 3"
    by (simp_all add: buffer_1_2_3_def)
  from fetchBondingCurve_decodes [OF a] la
  have "fetchBondingCurve (account_client buffer_1_2_3) ''curve'' =
          Return \<lparr> RealTokenReserves = int (le_value (take 8 buffer_1_2_3)),
                   VirtualTokenReserves = int (le_value (take 8 (drop 8 buffer_1_2_3))),
                   VirtualSolReserves = int (le_value (take 8 (drop 16 buffer_1_2_3))) \<rparr>"
    by blast
  moreover from fetchBondingCurve_decodes [OF b] lb
  have "fetchBondingCurve (account_client (replicate 23 0)) ''curve''
          = Error (Errorf ''FBCD: insufficient data length'' None)"
    by blast
  ultimately show ?thesis by (simp add: va)
qed

section \<open>Properties of \<open>math/big\<close> and of rounding\<close>

lemma big_Int_Div_pos:
  assumes "0 < y"
  shows "big_Int_Div x y = Return (x div y)"
proof (cases "0 \<le> x")
  case True
  then have "big_Int_Quo x y = x div y"
    using assms by (cases "x = 0") (simp_all add: big_Int_Quo_def)
  moreover have "0 \<le> x - y * (x div y)"
    using assms by (simp add: minus_mult_div_eq_mod)
  ultimately show ?thesis
    using assms by (simp add: big_Int_Div_def Let_def)
next
  case False
  then have neg: "x < 0" by simp
  have q: "big_Int_Quo x y = - ((- x) div y)"
    using assms neg by (simp add: big_Int_Quo_def)
  have r: "x - y * big_Int_Quo x y = - ((- x) mod y)"
  proof -
    have "y * ((- x) div y) + (- x) mod y = - x" by (rule mult_div_mod_eq)
    then show ?thesis unfolding q by linarith
  qed
  show ?thesis
  proof (cases "(- x) mod y = 0")
    case True
    then have "x div y = - ((- x) div y)"
      using assms by (simp add: zdiv_zminus1_eq_if [of y "- x", simplified])
    with True show ?thesis
      using assms r q by (simp add: big_Int_Div_def Let_def)
  next
    case False
    moreover have "0 \<le> (- x) mod y" using assms by (rule pos_mod_sign)
    ultimately have "0 < (- x) mod y" by linarith
    moreover have "x div y = - ((- x) div y) - 1"
      using assms \<open>(- x) mod y \<noteq> 0\<close> by (simp add: zdiv_zminus1_eq_if [of y "- x", simplified])
    ultimately show ?thesis
      using assms r q by (simp add: big_Int_Div_def Let_def)
  qed
qed

lemma big_Int_Div_zero [simp]: "big_Int_Div x 0 = Panic BigDivisionByZero"
  by (simp add: big_Int_Div_def)

lemma trunc_div_nonneg: "0 \<le> a \<Longrightarrow> 0 < b \<Longrightarrow> trunc_div a b = a div b"
  by (cases "a = 0") (simp_all add: trunc_div_def)

lemma round_half_even_of_int [simp]: "round_half_even (of_int n) = n"
  by (simp add: round_half_even_def)

lemma truncate_of_int [simp]: "truncate_rat (of_int n) = n"
  by (simp add: truncate_rat_def)

lemma quotient_of_pos:
  assumes "0 < x" and "quotient_of x = (a, b)"
  shows "0 < a" "0 < b" "x = of_int a / of_int b"
proof -
  show b: "0 < b" using assms(2) by (rule quotient_of_denom_pos)
  show x: "x = of_int a / of_int b" using assms(2) by (rule quotient_of_div)
  show "0 < a" using assms(1) b unfolding x by (simp add: zero_less_divide_iff)
qed

lemma powi_nat: "0 \<le> k \<Longrightarrow> (2::rat) powi k = 2 ^ nat k"
  by (simp add: power_int_def)

lemma powi_add1: "(2::rat) powi (k + 1) = 2 * 2 powi k"
  by (simp add: power_int_add)

lemma powi_sub1: "(2::rat) powi (k - 1) = 2 powi k / 2"
  by (simp add: power_int_diff)

lemma powi_pos [simp]: "0 < (2::rat) powi k"
  by simp

lemma powi_mono: "j \<le> k \<Longrightarrow> (2::rat) powi j \<le> 2 powi k"
  by (rule power_int_increasing) simp_all

lemma powi_strict_mono: "j < k \<Longrightarrow> (2::rat) powi j < 2 powi k"
  by (rule power_int_strict_increasing) simp_all

lemma bitlen_powi:
  assumes "0 < a"
  shows "(2::rat) powi (bitlen a - 1) \<le> of_int a" "(of_int a :: rat) < 2 powi bitlen a"
proof -
  from assms have b1: "1 \<le> bitlen a" by (simp add: bitlen_alt_def) 
  from bitlen_bounds [OF assms] have lo: "2 ^ nat (bitlen a - 1) \<le> a" and hi: "a < 2 ^ nat (bitlen a)"
    by simp_all
  have "(2::rat) powi (bitlen a - 1) = of_int (2 ^ nat (bitlen a - 1))"
    using b1 by (simp add: powi_nat)
  also have "\<dots> \<le> of_int a" using lo by (simp only: of_int_le_iff)
  finally show "(2::rat) powi (bitlen a - 1) \<le> of_int a" .
  have "(of_int a :: rat) < of_int (2 ^ nat (bitlen a))" using hi by (simp only: of_int_less_iff)
  also have "\<dots> = 2 powi bitlen a" using b1 by (simp add: powi_nat)
  finally show "(of_int a :: rat) < 2 powi bitlen a" .
qed

lemma floor_log2_bounds:
  assumes "0 < x"
  shows "2 powi floor_log2 x \<le> x" "x < 2 powi (floor_log2 x + 1)"
proof -
  obtain a b where ab: "quotient_of x = (a, b)" by (cases "quotient_of x")
  note q = quotient_of_pos [OF assms ab]
  define k where "k = bitlen a - bitlen b"
  have fl: "floor_log2 x = (if 2 powi k \<le> x then k else k - 1)"
    by (simp add: floor_log2_def ab k_def Let_def)
  have bpos: "(0::rat) < of_int b" using q(2) by simp
  have lo: "2 powi (k - 1) \<le> x"
  proof -
    have "(2::rat) powi (k - 1) * of_int b \<le> 2 powi (k - 1) * 2 powi bitlen b"
      using bitlen_powi(2) [OF q(2)] by (intro mult_left_mono) simp_all
    also have "\<dots> = 2 powi (bitlen a - 1)"
      by (simp add: k_def flip: power_int_add)
    also have "\<dots> \<le> of_int a" using bitlen_powi(1) [OF q(1)] .
    finally show ?thesis using bpos unfolding q(3) by (simp add: pos_le_divide_eq)
  qed
  have hi: "x < 2 powi (k + 1)"
  proof -
    have "(of_int a :: rat) < 2 powi bitlen a" using bitlen_powi(2) [OF q(1)] .
    also have "\<dots> = 2 powi (k + 1) * 2 powi (bitlen b - 1)"
      by (simp add: k_def flip: power_int_add)
    also have "\<dots> \<le> 2 powi (k + 1) * of_int b"
      using bitlen_powi(1) [OF q(2)] by (intro mult_left_mono) simp_all
    finally show ?thesis using bpos unfolding q(3) by (simp add: pos_divide_less_eq)
  qed
  show "2 powi floor_log2 x \<le> x" using lo by (simp add: fl)
  show "x < 2 powi (floor_log2 x + 1)" using hi by (auto simp: fl)
qed

lemma floor_log2_unique:
  assumes "2 powi e \<le> x" and "x < 2 powi (e + 1)"
  shows "floor_log2 x = e"
proof -
  have pos: "0 < x" using assms(1) powi_pos [of e] by linarith
  note b = floor_log2_bounds [OF pos]
  have "floor_log2 x < e + 1"
  proof (rule ccontr)
    assume "\<not> floor_log2 x < e + 1"
    then have "(2::rat) powi (e + 1) \<le> 2 powi floor_log2 x" by (intro powi_mono) simp
    with b(1) assms(2) show False by linarith
  qed
  moreover have "e < floor_log2 x + 1"
  proof (rule ccontr)
    assume "\<not> e < floor_log2 x + 1"
    then have "(2::rat) powi (floor_log2 x + 1) \<le> 2 powi e" by (intro powi_mono) simp
    with b(2) assms(1) show False by linarith
  qed
  ultimately show ?thesis by simp
qed

lemma floor_log2_of_int:
  assumes "0 < n"
  shows "floor_log2 (of_int n) = bitlen n - 1"
  using bitlen_powi [OF assms] by (intro floor_log2_unique) simp_all

text \<open>An integer that fits the precision is not changed by rounding.\<close>

lemma round_to_prec_of_int:
  assumes "big_Int_BitLen n \<le> p"
  shows "round_to_prec p (of_int n) = of_int n"
proof (cases "n = 0")
  case True
  then show ?thesis by (simp add: round_to_prec_def)
next
  case False
  then have pos: "0 < \<bar>n\<bar>" by simp
  define d where "d = int p - bitlen \<bar>n\<bar>"
  have d: "0 \<le> d" using assms by (simp add: d_def big_Int_BitLen_def)
  have fl: "floor_log2 \<bar>of_int n\<bar> - int p + 1 = - d"
    using floor_log2_of_int [OF pos] by (simp add: d_def flip: of_int_abs)
  have u: "(2::rat) powi (- d) = 1 / 2 ^ nat d"
    using d by (simp add: power_int_def field_simps)
  have "of_int n / (2::rat) powi (- d) = of_int (n * 2 ^ nat d)"
    by (simp add: u)
  then have "round_half_even (of_int n / (2::rat) powi (- d)) = n * 2 ^ nat d"
    by (simp only: round_half_even_of_int)
  then show ?thesis
    using False by (simp add: round_to_prec_def fl Let_def u)
qed

lemma float_mul_trunc_one [simp]: "float_mul_trunc a 1 = a"
  by (simp add: float_mul_trunc_def round_to_prec_of_int)

lemma float_mul_trunc_zero [simp]: "float_mul_trunc 0 m = 0"
  by (simp add: float_mul_trunc_def round_to_prec_def truncate_rat_def)

text \<open>
  The slippage step of both quote functions: \<open>SetInt\<close>, \<open>NewFloat\<close>, \<open>Mul\<close> and \<open>Int\<close> on a
  finite multiplier compute \<open>float_mul_trunc\<close>.
\<close>

lemma slippage_step:
  "and_then (big_NewFloat (Finite m)) (\<lambda>percentageMultiplier.
     and_then (big_Float_Mul (big_Float_SetInt a) percentageMultiplier) (\<lambda>number.
       Return (big_Float_Int number)))
   = Return (Some (float_mul_trunc a m))"
proof -
  have "max (max (big_Int_BitLen a) 64) 53 = max (big_Int_BitLen a) 64" by simp
  then show ?thesis
    by (simp add: big_Float_SetInt_def float_mul_trunc_def)
qed

lemma NewInt_int64_small:
  assumes "uint x < 2 ^ 63"
  shows "NewInt_int64 x = uint x"
proof -
  have "- (2 ^ 63) \<le> uint x" by (rule order_trans [of _ 0]) simp_all
  then have "signed_take_bit 63 (uint x) = uint x"
    using assms by (rule signed_take_bit_int_eq_self)
  then show ?thesis by (simp add: NewInt_int64_def sint_uint)
qed

lemma NewInt_int64_large:
  assumes "2 ^ 63 \<le> uint x"
  shows "NewInt_int64 x = uint x - 2 ^ 64"
proof -
  have hi: "uint x < 2 ^ 64" using uint_lt2p [of x] by simp
  have "uint x div 2 ^ 63 = 1" using assms hi by simp
  then have "bit (uint x) 63" by (simp add: bit_iff_odd)
  moreover have "take_bit 64 (uint x) = uint x"
    using hi by (simp add: take_bit_int_eq_self)
  ultimately have "signed_take_bit 63 (uint x) = uint x - 2 ^ 64"
    by (simp add: signed_take_bit_eq_take_bit_minus)
  then show ?thesis by (simp add: NewInt_int64_def sint_uint)
qed

section \<open>Properties of the quote engine\<close>

lemma slippage_step_finite:
  "and_then (big_Float_Mul (big_Float_SetInt a) (BigFinite 53 m))
     (\<lambda>number. Return (big_Float_Int number))
   = Return (Some (float_mul_trunc a m))"
  using slippage_step [of m a] by simp

lemma buyQuote_big_pos:
  assumes "0 < VirtualSolReserves bc + s"
  shows "buyQuote_big s bc (Finite m) =
           Return (Some (float_mul_trunc
             (VirtualTokenReserves bc
                - (VirtualSolReserves bc * VirtualTokenReserves bc) div (VirtualSolReserves bc + s)) m))"
  using assms by (simp add: buyQuote_big_def Let_def big_Int_Div_pos slippage_step_finite)

lemma sellQuote_big_pos:
  assumes "0 < VirtualTokenReserves bc + a"
  shows "sellQuote_big a bc (Finite m) =
           Return (Some (float_mul_trunc
             ((VirtualSolReserves bc * a) div (VirtualTokenReserves bc + a)) m))"
  using assms by (simp add: sellQuote_big_def Let_def big_Int_Div_pos slippage_step_finite)

lemma buyQuote_big_zero:
  "VirtualSolReserves bc + s = 0 \<Longrightarrow> buyQuote_big s bc m = Panic BigDivisionByZero"
  by (simp add: buyQuote_big_def Let_def)

lemma sellQuote_big_zero:
  "VirtualTokenReserves bc + a = 0 \<Longrightarrow> sellQuote_big a bc m = Panic BigDivisionByZero"
  by (simp add: sellQuote_big_def Let_def)

text \<open>
  Under the precondition that the amount is below \<open>2\<^sup>6\<^sup>3\<close>, the two functions compute the
  formulas of the specification.
\<close>

lemma calculateBuyQuote_formula:
  assumes "0 < VirtualSolReserves bc" and "0 \<le> VirtualTokenReserves bc" and "uint solAmount < 2 ^ 63"
  shows "calculateBuyQuote solAmount bc (Finite m) = Return (Some (quoteBuy (uint solAmount) bc m))"
proof -
  have "0 \<le> uint solAmount" by simp
  then have pos: "0 < VirtualSolReserves bc + uint solAmount" using assms(1) by linarith
  have "0 \<le> VirtualSolReserves bc * VirtualTokenReserves bc" using assms(1,2) by simp
  then have "trunc_div (VirtualSolReserves bc * VirtualTokenReserves bc)
               (VirtualSolReserves bc + uint solAmount)
             = (VirtualSolReserves bc * VirtualTokenReserves bc)
                 div (VirtualSolReserves bc + uint solAmount)"
    using pos by (rule trunc_div_nonneg)
  then show ?thesis
    using pos by (simp add: calculateBuyQuote_def NewInt_int64_small [OF assms(3)]
        buyQuote_big_pos quoteBuy_def Let_def)
qed

lemma calculateSellQuote_formula:
  assumes "0 < VirtualTokenReserves bc" and "uint tokenAmount < 2 ^ 63"
  shows "calculateSellQuote tokenAmount bc (Finite m)
           = Return (Some (quoteSell (uint tokenAmount) bc m))"
proof -
  have "0 \<le> uint tokenAmount" by simp
  then have pos: "0 < VirtualTokenReserves bc + uint tokenAmount" using assms(1) by linarith
  then show ?thesis
    by (simp add: calculateSellQuote_def NewInt_int64_small [OF assms(2)]
        sellQuote_big_pos quoteSell_def Let_def)
qed

text \<open>
  C1.  The buy quote is claimed to follow the constant-product formula for every \<open>solIn\<close>.
  \<open>calculateBuyQuote\<close> converts the amount through \<open>int64\<close>, so from \<open>2\<^sup>6\<^sup>3\<close> on it computes with
  a negative amount.  With \<open>solIn = 2\<^sup>6\<^sup>4 - 1\<close> and both virtual reserves 1 the divisor is 0 and
  the function panics, where the formula gives 1; with \<open>solIn = 2\<^sup>6\<^sup>4 - 6\<close>, virtual SOL 10 and
  virtual tokens 1000 it returns -1500, where the formula gives 1000.  At the example of
  the specification (an amount of 1000) code and formula agree.
\<close>

theorem calculateBuyQuote_int64_wrap:
  "calculateBuyQuote 18446744073709551615 (snapshot 1 1) (Finite 1) = Panic BigDivisionByZero
   \<and> quoteBuy 18446744073709551615 (snapshot 1 1) 1 = 1
   \<and> calculateBuyQuote 18446744073709551610 (snapshot 10 1000) (Finite 1) = Return (Some (- 1500))
   \<and> quoteBuy 18446744073709551610 (snapshot 10 1000) 1 = 1000
   \<and> calculateBuyQuote 1000 (snapshot 1000000 1000000000) (Finite 1)
       = Return (Some (1000000000 - 1000000000000000 div 1001000))"
proof -
  have "calculateBuyQuote 18446744073709551615 (snapshot 1 1) (Finite 1) = Panic BigDivisionByZero"
    by (simp add: calculateBuyQuote_def NewInt_int64_def buyQuote_big_zero snapshot_def)
  moreover have "quoteBuy 18446744073709551615 (snapshot 1 1) 1 = 1"
    by (simp add: quoteBuy_def snapshot_def trunc_div_def)
  moreover have "calculateBuyQuote 18446744073709551610 (snapshot 10 1000) (Finite 1)
                   = Return (Some (- 1500))"
    by (simp add: calculateBuyQuote_def NewInt_int64_def buyQuote_big_pos snapshot_def)
  moreover have "quoteBuy 18446744073709551610 (snapshot 10 1000) 1 = 1000"
    by (simp add: quoteBuy_def snapshot_def trunc_div_def)
  moreover have "calculateBuyQuote 1000 (snapshot 1000000 1000000000) (Finite 1)
                   = Return (Some (1000000000 - 1000000000000000 div 1001000))"
    by (simp add: calculateBuyQuote_formula snapshot_def quoteBuy_def trunc_div_def)
  ultimately show ?thesis by (simp only: simp_thms)
qed

text \<open>
  C2.  The sell quote is claimed to follow the spot-price formula for every \<open>tokensIn\<close>.
  \<open>calculateSellQuote\<close> has the same conversion through \<open>int64\<close>.  With \<open>tokensIn = 2\<^sup>6\<^sup>4 - 1\<close>,
  virtual tokens 1 and virtual SOL 5 the divisor is 0 and the function panics, where the
  formula gives 4; with \<open>tokensIn = 2\<^sup>6\<^sup>3\<close> and both virtual reserves 1 it returns 2, where the
  formula gives 0.
\<close>

theorem calculateSellQuote_int64_wrap:
  "calculateSellQuote 18446744073709551615 (snapshot 5 1) (Finite 1) = Panic BigDivisionByZero
   \<and> quoteSell 18446744073709551615 (snapshot 5 1) 1 = 4
   \<and> calculateSellQuote 9223372036854775808 (snapshot 1 1) (Finite 1) = Return (Some 2)
   \<and> quoteSell 9223372036854775808 (snapshot 1 1) 1 = 0"
proof -
  have "calculateSellQuote 18446744073709551615 (snapshot 5 1) (Finite 1) = Panic BigDivisionByZero"
    by (simp add: calculateSellQuote_def NewInt_int64_def sellQuote_big_zero snapshot_def)
  moreover have "quoteSell 18446744073709551615 (snapshot 5 1) 1 = 4"
    by (simp add: quoteSell_def snapshot_def)
  moreover have "calculateSellQuote 9223372036854775808 (snapshot 1 1) (Finite 1) = Return (Some 2)"
    by code_simp
  moreover have "quoteSell 9223372036854775808 (snapshot 1 1) 1 = 0"
    by (simp add: quoteSell_def snapshot_def)
  ultimately show ?thesis by (simp only: simp_thms)
qed

lemma buyQuote_big_panic_iff:
  "buyQuote_big s bc m = Panic BigDivisionByZero \<longleftrightarrow> VirtualSolReserves bc + s = 0"
proof (cases "VirtualSolReserves bc + s = 0")
  case True
  then show ?thesis by (simp add: buyQuote_big_zero)
next
  case False
  then obtain q where "big_Int_Div (VirtualSolReserves bc * VirtualTokenReserves bc)
                         (VirtualSolReserves bc + s) = Return q"
    by (simp add: big_Int_Div_def Let_def)
  with False show ?thesis
    by (cases m) (simp_all add: buyQuote_big_def Let_def big_Float_SetInt_def)
qed

lemma sellQuote_big_panic_iff:
  "sellQuote_big a bc m = Panic BigDivisionByZero \<longleftrightarrow> VirtualTokenReserves bc + a = 0"
proof (cases "VirtualTokenReserves bc + a = 0")
  case True
  then show ?thesis by (simp add: sellQuote_big_zero)
next
  case False
  then obtain q where "big_Int_Div (VirtualSolReserves bc * a)
                         (VirtualTokenReserves bc + a) = Return q"
    by (simp add: big_Int_Div_def Let_def)
  with False show ?thesis
    by (cases m) (simp_all add: sellQuote_big_def Let_def big_Float_SetInt_def)
qed

lemma nonneg_sum_zero:
  assumes "0 \<le> v" and "v + uint (a::uint64) = 0"
  shows "v + NewInt_int64 a = 0"
proof -
  have "0 \<le> uint a" by simp
  with assms have "uint a = 0" "v = 0" by linarith+
  then show ?thesis by (simp add: NewInt_int64_small)
qed

text \<open>
  C6.  When the divisor of a quote is zero, the quote function does not return: \<open>Int.Div\<close>
  panics with "division by zero".  This holds for the divisor the code computes, and so for
  the divisor of the specification (virtual reserve plus amount) on every snapshot whose
  reserves are not negative; and the division is the only place that raises this panic.
\<close>

theorem quote_zero_divisor_panics:
  "(VirtualSolReserves bc + NewInt_int64 solAmount = 0
      \<or> 0 \<le> VirtualSolReserves bc \<and> VirtualSolReserves bc + uint solAmount = 0
    \<longrightarrow> calculateBuyQuote solAmount bc percentage = Panic BigDivisionByZero)
   \<and> (VirtualTokenReserves bc + NewInt_int64 tokenAmount = 0
      \<or> 0 \<le> VirtualTokenReserves bc \<and> VirtualTokenReserves bc + uint tokenAmount = 0
    \<longrightarrow> calculateSellQuote tokenAmount bc percentage = Panic BigDivisionByZero)
   \<and> (calculateBuyQuote solAmount bc percentage = Panic BigDivisionByZero
    \<longleftrightarrow> VirtualSolReserves bc + NewInt_int64 solAmount = 0)
   \<and> (calculateSellQuote tokenAmount bc percentage = Panic BigDivisionByZero
    \<longleftrightarrow> VirtualTokenReserves bc + NewInt_int64 tokenAmount = 0)"
  using nonneg_sum_zero [of "VirtualSolReserves bc" solAmount]
    nonneg_sum_zero [of "VirtualTokenReserves bc" tokenAmount]
  by (auto simp: calculateBuyQuote_def calculateSellQuote_def buyQuote_big_panic_iff
      sellQuote_big_panic_iff)

theorem quote_zero_divisor_panics_witness:
  "calculateBuyQuote 0 (snapshot 0 0) (Finite 1) = Panic BigDivisionByZero
   \<and> calculateSellQuote 0 (snapshot 0 0) NaN = Panic BigDivisionByZero
   \<and> calculateBuyQuote 18446744073709551615 (snapshot 1 1) (Finite 1) = Panic BigDivisionByZero"
proof -
  have a: "0 \<le> VirtualSolReserves (snapshot 0 0)
             \<and> VirtualSolReserves (snapshot 0 0) + uint (0::uint64) = 0"
    by (simp add: snapshot_def)
  have b: "0 \<le> VirtualTokenReserves (snapshot 0 0)
             \<and> VirtualTokenReserves (snapshot 0 0) + uint (0::uint64) = 0"
    by (simp add: snapshot_def)
  have c: "VirtualSolReserves (snapshot 1 1) + NewInt_int64 18446744073709551615 = 0"
    by (simp add: snapshot_def NewInt_int64_def)
  from a quote_zero_divisor_panics [of "snapshot 0 0" 0 "Finite 1" 0]
  have "calculateBuyQuote 0 (snapshot 0 0) (Finite 1) = Panic BigDivisionByZero" by blast
  moreover from b quote_zero_divisor_panics [of "snapshot 0 0" 0 NaN 0]
  have "calculateSellQuote 0 (snapshot 0 0) NaN = Panic BigDivisionByZero" by blast
  moreover from c quote_zero_divisor_panics [of "snapshot 1 1" 18446744073709551615 "Finite 1" 0]
  have "calculateBuyQuote 18446744073709551615 (snapshot 1 1) (Finite 1) = Panic BigDivisionByZero"
    by blast
  ultimately show ?thesis by (simp only: simp_thms)
qed

text \<open>
  C10.  Both quote functions turn the \<open>uint64\<close> amount into a \<open>*big.Int\<close> through \<open>int64\<close>.
  Below \<open>2\<^sup>6\<^sup>3\<close> the value is kept, and the functions compute the formulas of the
  specification.  From \<open>2\<^sup>6\<^sup>3\<close> on the quote is computed with the amount minus \<open>2\<^sup>6\<^sup>4\<close>, a
  negative number, and there are such amounts at which code and formula differ.
\<close>

theorem amount_through_int64:
  "(uint amount < 2 ^ 63 \<longrightarrow>
      NewInt_int64 amount = uint amount
      \<and> calculateBuyQuote amount bc m = buyQuote_big (uint amount) bc m
      \<and> calculateSellQuote amount bc m = sellQuote_big (uint amount) bc m)
   \<and> (2 ^ 63 \<le> uint amount \<longrightarrow>
      NewInt_int64 amount = uint amount - 2 ^ 64 \<and> NewInt_int64 amount < 0
      \<and> calculateBuyQuote amount bc m = buyQuote_big (uint amount - 2 ^ 64) bc m
      \<and> calculateSellQuote amount bc m = sellQuote_big (uint amount - 2 ^ 64) bc m)
   \<and> (uint amount < 2 ^ 63 \<and> 0 < VirtualSolReserves bc \<and> 0 < VirtualTokenReserves bc \<longrightarrow>
      calculateBuyQuote amount bc (Finite q) = Return (Some (quoteBuy (uint amount) bc q))
      \<and> calculateSellQuote amount bc (Finite q) = Return (Some (quoteSell (uint amount) bc q)))
   \<and> calculateBuyQuote 18446744073709551610 (snapshot 10 1000) (Finite 1)
        \<noteq> Return (Some (quoteBuy 18446744073709551610 (snapshot 10 1000) 1))
   \<and> calculateSellQuote 9223372036854775808 (snapshot 1 1) (Finite 1)
        \<noteq> Return (Some (quoteSell 9223372036854775808 (snapshot 1 1) 1))"
proof -
  have small: "NewInt_int64 amount = uint amount" if "uint amount < 2 ^ 63"
    using that by (rule NewInt_int64_small)
  have large: "NewInt_int64 amount = uint amount - 2 ^ 64" "NewInt_int64 amount < 0"
    if "2 ^ 63 \<le> uint amount"
  proof -
    show eq: "NewInt_int64 amount = uint amount - 2 ^ 64" using that by (rule NewInt_int64_large)
    have "uint amount < 2 ^ 64" using uint_lt2p [of amount] by simp
    then show "NewInt_int64 amount < 0" unfolding eq by simp
  qed
  have formulas: "calculateBuyQuote amount bc (Finite q) = Return (Some (quoteBuy (uint amount) bc q))"
      "calculateSellQuote amount bc (Finite q) = Return (Some (quoteSell (uint amount) bc q))"
    if "uint amount < 2 ^ 63" "0 < VirtualSolReserves bc" "0 < VirtualTokenReserves bc"
    using that by (simp_all add: calculateBuyQuote_formula calculateSellQuote_formula)
  have buy: "calculateBuyQuote 18446744073709551610 (snapshot 10 1000) (Finite 1)
               \<noteq> Return (Some (quoteBuy 18446744073709551610 (snapshot 10 1000) 1))"
  proof -
    have "calculateBuyQuote 18446744073709551610 (snapshot 10 1000) (Finite 1)
            = Return (Some (- 1500))"
      by (simp add: calculateBuyQuote_def NewInt_int64_def buyQuote_big_pos snapshot_def)
    moreover have "quoteBuy 18446744073709551610 (snapshot 10 1000) 1 = 1000"
      by (simp add: quoteBuy_def snapshot_def trunc_div_def)
    ultimately show ?thesis by simp
  qed
  have sell: "calculateSellQuote 9223372036854775808 (snapshot 1 1) (Finite 1)
                \<noteq> Return (Some (quoteSell 9223372036854775808 (snapshot 1 1) 1))"
  proof -
    have "calculateSellQuote 9223372036854775808 (snapshot 1 1) (Finite 1) = Return (Some 2)"
      by code_simp
    moreover have "quoteSell 9223372036854775808 (snapshot 1 1) 1 = 0"
      by (simp add: quoteSell_def snapshot_def)
    ultimately show ?thesis by simp
  qed
  show ?thesis
    using small large formulas buy sell
    by (simp add: calculateBuyQuote_def calculateSellQuote_def)
qed

theorem amount_through_int64_witness:
  "NewInt_int64 1000 = 1000
   \<and> calculateBuyQuote 1000 (snapshot 1000000 1000000000) (Finite 1)
       = Return (Some (quoteBuy 1000 (snapshot 1000000 1000000000) 1))
   \<and> NewInt_int64 18446744073709551610 = - 6
   \<and> calculateBuyQuote 18446744073709551610 (snapshot 10 1000) (Finite 1)
       = buyQuote_big (- 6) (snapshot 10 1000) (Finite 1)"
proof -
  have a: "uint (1000::uint64) < 2 ^ 63 \<and> 0 < VirtualSolReserves (snapshot 1000000 1000000000)
             \<and> 0 < VirtualTokenReserves (snapshot 1000000 1000000000)"
    by (simp add: snapshot_def)
  have b: "2 ^ 63 \<le> uint (18446744073709551610::uint64)" by simp
  have c: "uint (18446744073709551610::uint64) - 2 ^ 64 = - 6" by simp
  from a amount_through_int64 [of 1000 "snapshot 1000000 1000000000" "Finite 1" 1]
  have "NewInt_int64 1000 = uint (1000::uint64)"
    "calculateBuyQuote 1000 (snapshot 1000000 1000000000) (Finite 1)
       = Return (Some (quoteBuy (uint (1000::uint64)) (snapshot 1000000 1000000000) 1))"
    by blast+
  moreover from b amount_through_int64 [of 18446744073709551610 "snapshot 10 1000" "Finite 1" 1]
  have "NewInt_int64 18446744073709551610 = uint (18446744073709551610::uint64) - 2 ^ 64"
    "calculateBuyQuote 18446744073709551610 (snapshot 10 1000) (Finite 1)
       = buyQuote_big (uint (18446744073709551610::uint64) - 2 ^ 64) (snapshot 10 1000) (Finite 1)"
    by blast+
  ultimately show ?thesis unfolding c by simp
qed

text \<open>
  The arithmetic of the round trip.  Buying for \<open>s\<close> gives \<open>t = vt - vs * vt div (vs + s)\<close>
  tokens; selling them at the same reserves gives \<open>vs * t div (vt + t)\<close>.
\<close>

lemma buy_tokens_bounds:
  fixes vs vt s :: int
  assumes "0 < vs" "0 \<le> vt" "0 \<le> s"
  shows "0 \<le> vt - vs * vt div (vs + s)" "vt - vs * vt div (vs + s) \<le> vt"
proof -
  have d: "0 < vs + s" using assms by simp
  have "vs * vt \<le> vt * (vs + s)" using assms by (simp add: algebra_simps)
  then have "vs * vt div (vs + s) \<le> vt * (vs + s) div (vs + s)" by (rule zdiv_mono1) (rule d)
  then show "0 \<le> vt - vs * vt div (vs + s)" using d by simp
  have "0 \<le> vs * vt" using assms by simp
  then have "0 \<le> vs * vt div (vs + s)" using d by (simp add: pos_imp_zdiv_nonneg_iff)
  then show "vt - vs * vt div (vs + s) \<le> vt" by simp
qed

lemma int_div_le:
  fixes a b k :: int
  assumes "0 < b" and "a < (k + 1) * b"
  shows "a div b \<le> k"
proof (rule ccontr)
  assume "\<not> a div b \<le> k"
  then have "k + 1 \<le> a div b" by simp
  then have "(k + 1) * b \<le> (a div b) * b"
    using assms(1) by (intro mult_right_mono) simp_all
  moreover have "(a div b) * b + a mod b = a" by (rule div_mult_mod_eq)
  moreover have "0 \<le> a mod b" using assms(1) by (rule pos_mod_sign)
  ultimately show False using assms(2) by linarith
qed

lemma round_trip_arith:
  fixes vs vt s :: int
  assumes "0 < vs" "vs \<le> vt" "0 \<le> s"
  shows "vs * (vt - vs * vt div (vs + s)) div (vt + (vt - vs * vt div (vs + s))) \<le> s"
proof -
  define D where "D = vs + s"
  define N where "N = vs * vt div D"
  define R where "R = vs * vt mod D"
  define T where "T = vt - N"
  have D: "0 < D" using assms by (simp add: D_def)
  have vt: "0 < vt" using assms by simp
  have R: "0 \<le> R" "R < D" using D by (simp_all add: R_def)
  have K: "vs * vt = N * D + R" by (simp add: N_def R_def)
  have T0: "0 \<le> T" unfolding T_def N_def D_def
    using buy_tokens_bounds(1) [of vs vt s] assms by simp
  have TD: "T * D = vt * s + R"
  proof -
    have "T * D = vt * D - N * D" by (simp add: T_def algebra_simps)
    also have "\<dots> = vt * D - (vs * vt - R)" using K by simp
    also have "\<dots> = vt * s + R" by (simp add: D_def algebra_simps)
    finally show ?thesis .
  qed
  have key: "vs * T < (s + 1) * (vt + T)"
  proof (cases "vs \<le> s + 1")
    case True
    have "vs * T \<le> (s + 1) * T" using True T0 by (rule mult_right_mono)
    also have "\<dots> < (s + 1) * vt + (s + 1) * T" using vt assms(3) by simp
    finally show ?thesis by (simp add: algebra_simps)
  next
    case False
    define c where "c = vs - s - 1"
    have c: "0 < c" "c < vt" "c < D" using False assms by (simp_all add: c_def D_def)
    have "T * D * c = (vt * s + R) * c" by (simp add: TD)
    also have "\<dots> = vt * s * c + R * c" by (simp add: algebra_simps)
    also have "\<dots> < vt * s * D + D * vt"
    proof -
      have "vt * s * c \<le> vt * s * D"
        using c(3) vt assms(3) by (intro mult_left_mono) simp_all
      moreover have "R * c < D * vt"
      proof -
        have "R * c \<le> R * vt" using R(1) c(2) by (intro mult_left_mono) simp_all
        also have "\<dots> < D * vt" using R(2) vt by (intro mult_strict_right_mono)
        finally show ?thesis .
      qed
      ultimately show ?thesis by linarith
    qed
    also have "\<dots> = (s + 1) * vt * D" by (simp add: algebra_simps)
    finally have "(T * c) * D < ((s + 1) * vt) * D" by (simp add: mult_ac)
    then have "T * c < (s + 1) * vt" using D by (simp add: mult_less_cancel_right)
    then show ?thesis by (simp add: c_def algebra_simps)
  qed
  have pos: "0 < vt + T" using vt T0 by simp
  then have "vs * T div (vt + T) \<le> s" using key by (rule int_div_le)
  then show ?thesis by (simp add: T_def N_def D_def)
qed

text \<open>
  C4.  The claim: with positive virtual reserves and multiplier 1.0, selling what a buy
  returned gives back at most the SOL paid.  It fails: the buy quote rounds the tokens up
  (it subtracts a floor), and when a token is worth more than a lamport the extra fraction
  of a token sells for more than was paid.  With virtual SOL 100, virtual tokens 1 and
  \<open>solIn = 1\<close>, the buy returns 1 token and the sell returns 50.
\<close>

theorem buy_then_sell_counterexample:
  "0 < VirtualSolReserves (snapshot 100 1) \<and> 0 < VirtualTokenReserves (snapshot 100 1)
   \<and> calculateBuyQuote 1 (snapshot 100 1) (Finite 1) = Return (Some 1)
   \<and> buy_then_sell 1 (snapshot 100 1) = Return (Some 50)
   \<and> \<not> (50 \<le> uint (1::uint64))"
proof -
  have s: "uint (1::uint64) < 2 ^ 63" by simp
  have p: "0 < VirtualSolReserves (snapshot 100 1)" "0 \<le> VirtualTokenReserves (snapshot 100 1)"
    "0 < VirtualTokenReserves (snapshot 100 1)"
    by (simp_all add: snapshot_def)
  have buy: "calculateBuyQuote 1 (snapshot 100 1) (Finite 1) = Return (Some 1)"
    by (simp only: calculateBuyQuote_formula [OF p(1,2) s])
      (simp add: quoteBuy_def trunc_div_def snapshot_def)
  have sell: "calculateSellQuote 1 (snapshot 100 1) (Finite 1) = Return (Some 50)"
    by (simp only: calculateSellQuote_formula [OF p(3) s])
      (simp add: quoteSell_def snapshot_def)
  have "buy_then_sell 1 (snapshot 100 1) = Return (Some 50)"
    by (simp add: buy_then_sell_def buy big_Int_Uint64_def sell)
  with buy p show ?thesis by simp
qed

text \<open>
  C4, amended.  When the virtual SOL reserve is positive and not above the virtual token
  reserve, and the amount and the token reserve are below \<open>2\<^sup>6\<^sup>3\<close>, the round trip returns
  a SOL amount between 0 and the SOL paid.
\<close>

theorem buy_then_sell_le:
  assumes "0 < VirtualSolReserves bc"
    and "VirtualSolReserves bc \<le> VirtualTokenReserves bc"
    and "VirtualTokenReserves bc < 2 ^ 63"
    and "uint solIn < 2 ^ 63"
  shows "\<exists>sol. buy_then_sell solIn bc = Return (Some sol) \<and> 0 \<le> sol \<and> sol \<le> uint solIn"
proof -
  define vs where "vs = VirtualSolReserves bc"
  define vt where "vt = VirtualTokenReserves bc"
  define s where "s = uint solIn"
  define T where "T = vt - vs * vt div (vs + s)"
  have vs: "0 < vs" and le: "vs \<le> vt" and vt63: "vt < 2 ^ 63" and vt: "0 < vt"
    using assms by (simp_all add: vs_def vt_def)
  have s0: "0 \<le> s" by (simp add: s_def)
  have T: "0 \<le> T" "T \<le> vt"
    unfolding T_def using buy_tokens_bounds [of vs vt s] vs vt s0 by simp_all
  have inv: "0 \<le> vs * vt" using vs vt by simp
  have d: "0 < vs + s" using vs s0 by simp
  have "quoteBuy (uint solIn) bc 1 = T"
    using inv d by (simp add: quoteBuy_def Let_def T_def trunc_div_nonneg flip: vs_def vt_def s_def)
  then have buy: "calculateBuyQuote solIn bc (Finite 1) = Return (Some T)"
    using calculateBuyQuote_formula [of bc solIn 1] assms vt by (simp add: vt_def)
  have T63: "T < 2 ^ 63" using T(2) vt63 by simp
  define w :: uint64 where "w = word_of_int \<bar>T\<bar>"
  have "take_bit 64 T = T" using T(1) T63 by (simp add: take_bit_int_eq_self)
  then have uw: "uint w = T" using T(1) by (simp add: w_def uint_word_of_int_eq)
  have "calculateSellQuote w bc (Finite 1) = Return (Some (quoteSell (uint w) bc 1))"
    using assms vt T63 by (intro calculateSellQuote_formula) (simp_all add: uw vt_def)
  moreover have "quoteSell (uint w) bc 1 = vs * T div (vt + T)"
    by (simp add: quoteSell_def Let_def uw flip: vs_def vt_def)
  ultimately have sell: "calculateSellQuote w bc (Finite 1) = Return (Some (vs * T div (vt + T)))"
    by simp
  have trip: "buy_then_sell solIn bc = Return (Some (vs * T div (vt + T)))"
    by (simp add: buy_then_sell_def buy big_Int_Uint64_def sell flip: w_def)
  have "vs * T div (vt + T) \<le> s"
    unfolding T_def using vs le s0 by (rule round_trip_arith)
  moreover have "0 \<le> vs * T div (vt + T)"
    using vs vt T(1) by (simp add: pos_imp_zdiv_nonneg_iff)
  ultimately show ?thesis using trip by (simp add: s_def)
qed

theorem buy_then_sell_le_witness:
  "\<exists>sol. buy_then_sell 1000 (snapshot 1000000 1000000000) = Return (Some sol)
       \<and> 0 \<le> sol \<and> sol \<le> 1000"
proof -
  have "0 < VirtualSolReserves (snapshot 1000000 1000000000)"
    "VirtualSolReserves (snapshot 1000000 1000000000)
       \<le> VirtualTokenReserves (snapshot 1000000 1000000000)"
    "VirtualTokenReserves (snapshot 1000000 1000000000) < 2 ^ 63"
    "uint (1000::uint64) < 2 ^ 63"
    by (simp_all add: snapshot_def)
  from buy_then_sell_le [OF this] show ?thesis by simp
qed

lemma round_half_even_floor: "\<lfloor>x\<rfloor> \<le> round_half_even x"
  by (simp add: round_half_even_def Let_def)

lemma round_half_even_ceiling: "round_half_even x \<le> \<lceil>x\<rceil>"
proof (cases "x = of_int \<lfloor>x\<rfloor>")
  case True
  then have "\<lceil>x\<rceil> = \<lfloor>x\<rfloor>" by (metis ceiling_of_int)
  with True show ?thesis by (simp add: round_half_even_def Let_def)
next
  case False
  then have "\<lceil>x\<rceil> = \<lfloor>x\<rfloor> + 1" by (simp add: ceiling_altdef)
  then show ?thesis by (simp add: round_half_even_def Let_def)
qed

lemma round_half_even_ge:
  assumes "of_int n \<le> x"
  shows "n \<le> round_half_even x"
proof -
  have "n \<le> \<lfloor>x\<rfloor>" using assms by (simp add: le_floor_iff)
  then show ?thesis using round_half_even_floor [of x] by linarith
qed

lemma round_half_even_le:
  assumes "x \<le> of_int n"
  shows "round_half_even x \<le> n"
proof -
  have "\<lceil>x\<rceil> \<le> n" using assms by (simp add: ceiling_le_iff)
  then show ?thesis using round_half_even_ceiling [of x] by linarith
qed

lemma floor_log2_ge:
  assumes "2 powi a \<le> x"
  shows "a \<le> floor_log2 x"
proof (rule ccontr)
  assume "\<not> a \<le> floor_log2 x"
  then have "(2::rat) powi (floor_log2 x + 1) \<le> 2 powi a" by (intro powi_mono) simp
  moreover have "0 < x" using assms powi_pos [of a] by linarith
  ultimately show False using floor_log2_bounds(2) [of x] assms by linarith
qed

lemma floor_log2_less:
  assumes "0 < x" and "x < 2 powi b"
  shows "floor_log2 x < b"
proof (rule ccontr)
  assume "\<not> floor_log2 x < b"
  then have "(2::rat) powi b \<le> 2 powi floor_log2 x" by (intro powi_mono) simp
  then show False using floor_log2_bounds(1) [OF assms(1)] assms(2) by linarith
qed

text \<open>
  Rounding to binary64 in the normal range: the significand is an integer of 53 bits (or
  \<open>2\<^sup>5\<^sup>3\<close>, when rounding carries into the next binade) with the sign of the number.
\<close>

lemma f64_round_normal:
  assumes "x \<noteq> 0" and "- 1022 \<le> floor_log2 \<bar>x\<bar>" and "floor_log2 \<bar>x\<bar> < 1023"
  shows "\<exists>k. f64_round x = Finite (of_int k * 2 powi (floor_log2 \<bar>x\<bar> - 52))
             \<and> k = round_half_even (x / 2 powi (floor_log2 \<bar>x\<bar> - 52))
             \<and> (0 < x \<longrightarrow> 2 ^ 52 \<le> k \<and> k \<le> 2 ^ 53)
             \<and> (x < 0 \<longrightarrow> - (2 ^ 53) \<le> k \<and> k \<le> - (2 ^ 52))"
proof -
  define e where "e = floor_log2 \<bar>x\<bar>"
  define u :: rat where "u = 2 powi (e - 52)"
  define k where "k = round_half_even (x / u)"
  have ax: "0 < \<bar>x\<bar>" using assms(1) by simp
  have u: "0 < u" by (simp add: u_def)
  have lo: "2 ^ 52 * u \<le> \<bar>x\<bar>"
  proof -
    have "2 ^ 52 * u = 2 powi e" by (simp add: u_def power_int_diff)
    then show ?thesis using floor_log2_bounds(1) [OF ax] by (simp add: e_def)
  qed
  have hi: "\<bar>x\<bar> < 2 ^ 53 * u"
  proof -
    have "2 ^ 53 * u = 2 powi (e + 1)" by (simp add: u_def power_int_diff power_int_add)
    then show ?thesis using floor_log2_bounds(2) [OF ax] by (simp add: e_def)
  qed
  have pos: "2 ^ 52 \<le> k \<and> k \<le> 2 ^ 53" if "0 < x"
  proof
    have "of_int (2 ^ 52) \<le> x / u" using lo that u by (simp add: pos_le_divide_eq)
    then show "2 ^ 52 \<le> k" unfolding k_def by (rule round_half_even_ge)
    have "x / u \<le> of_int (2 ^ 53)" using hi that u by (simp add: pos_divide_le_eq)
    then show "k \<le> 2 ^ 53" unfolding k_def by (rule round_half_even_le)
  qed
  have neg: "- (2 ^ 53) \<le> k \<and> k \<le> - (2 ^ 52)" if "x < 0"
  proof
    have "of_int (- (2 ^ 53)) \<le> x / u" using hi that u by (simp add: pos_le_divide_eq)
    then show "- (2 ^ 53) \<le> k" unfolding k_def by (rule round_half_even_ge)
    have "x / u \<le> of_int (- (2 ^ 52))" using lo that u by (simp add: pos_divide_le_eq)
    then show "k \<le> - (2 ^ 52)" unfolding k_def by (rule round_half_even_le)
  qed
  have kb: "k \<noteq> 0" "\<bar>k\<bar> \<le> 2 ^ 53"
    using pos neg assms(1) by (cases "0 < x"; simp)+
  define r :: rat where "r = of_int k * u"
  have r0: "r \<noteq> 0" using kb(1) u by (simp add: r_def)
  have "\<bar>r\<bar> = of_int \<bar>k\<bar> * u" using u by (simp add: r_def abs_mult)
  also have "\<dots> \<le> of_int (2 ^ 53) * u"
  proof (rule mult_right_mono)
    show "(of_int \<bar>k\<bar> :: rat) \<le> of_int (2 ^ 53)" using kb(2) by (simp only: of_int_le_iff)
    show "0 \<le> u" using u by simp
  qed
  also have "\<dots> = 2 powi (e + 1)" by (simp add: u_def power_int_diff power_int_add)
  also have "\<dots> < 2 powi 1024" using assms(3) by (intro powi_strict_mono) (simp add: e_def)
  finally have "floor_log2 \<bar>r\<bar> < 1024" using r0 by (intro floor_log2_less) simp_all
  moreover have "max (e - 52) (- 1074) = e - 52" using assms(2) by (simp add: e_def)
  ultimately have "f64_round x = Finite r"
    using assms(1) by (simp add: f64_round_def Let_def r_def k_def u_def flip: e_def)
  then show ?thesis
    using pos neg by (auto simp: r_def k_def u_def e_def)
qed

lemma of_int_mult_right_mono:
  fixes u :: rat
  assumes "a \<le> b" and "0 < u"
  shows "of_int a * u \<le> of_int b * u"
proof (rule mult_right_mono)
  show "(of_int a :: rat) \<le> of_int b" using assms(1) by (simp only: of_int_le_iff)
  show "0 \<le> u" using assms(2) by simp
qed

lemma of_int_mult_right_strict_mono:
  fixes u :: rat
  assumes "a < b" and "0 < u"
  shows "of_int a * u < of_int b * u"
proof (rule mult_strict_right_mono)
  show "(of_int a :: rat) < of_int b" using assms(1) by (simp only: of_int_less_iff)
  show "0 < u" using assms(2) .
qed

text \<open>
  Rounding is monotone against a binary64 number below: if \<open>y = k * 2\<^sup>j\<close> with a 53-bit
  significand \<open>k\<close> is at most \<open>x\<close>, it is at most the rounded \<open>x\<close>.
\<close>

lemma f64_round_ge:
  assumes y: "y = of_int k * 2 powi j" and k: "2 ^ 52 \<le> k" "k < 2 ^ 53" and j: "- 1074 \<le> j"
    and yx: "y \<le> x" and x: "x < 2 powi 1023"
  shows "\<exists>r. f64_round x = Finite r \<and> y \<le> r \<and> r \<le> 2 powi (floor_log2 x + 1)"
proof -
  define e where "e = floor_log2 x"
  define u :: rat where "u = 2 powi (e - 52)"
  have pj: "(0::rat) < 2 powi j" by simp
  have ylo: "2 powi (j + 52) \<le> y"
  proof -
    have "(2::rat) powi (j + 52) = of_int (2 ^ 52) * 2 powi j" by (simp add: power_int_add)
    also have "\<dots> \<le> of_int k * 2 powi j"
      using k(1) pj by (rule of_int_mult_right_mono)
    finally show ?thesis by (simp add: y)
  qed
  have yhi: "y < 2 powi (j + 53)"
  proof -
    have "of_int k * (2::rat) powi j < of_int (2 ^ 53) * 2 powi j"
      using k(2) pj by (rule of_int_mult_right_strict_mono)
    also have "\<dots> = 2 powi (j + 53)" by (simp add: power_int_add)
    finally show ?thesis by (simp add: y)
  qed
  have ypos: "0 < y" using ylo powi_pos [of "j + 52"] by linarith
  then have xpos: "0 < x" using yx by simp
  have e_lo: "j + 52 \<le> e" unfolding e_def using ylo yx by (intro floor_log2_ge) simp
  have e_hi: "e < 1023" unfolding e_def using xpos x by (rule floor_log2_less)
  have ax: "\<bar>x\<bar> = x" using xpos by simp
  from f64_round_normal [of x] xpos e_lo e_hi j
  obtain kx where kx: "f64_round x = Finite (of_int kx * u)" "kx = round_half_even (x / u)"
      "2 ^ 52 \<le> kx" "kx \<le> 2 ^ 53"
    by (auto simp: ax u_def e_def)
  have u: "0 < u" by (simp add: u_def)
  have hi: "of_int kx * u \<le> 2 powi (e + 1)"
  proof -
    have "of_int kx * u \<le> of_int (2 ^ 53) * u"
      using kx(4) u by (rule of_int_mult_right_mono)
    also have "\<dots> = 2 powi (e + 1)" by (simp add: u_def power_int_diff power_int_add)
    finally show ?thesis .
  qed
  have lo: "y \<le> of_int kx * u"
  proof (cases "e = j + 52")
    case True
    then have uj: "u = 2 powi j" by (simp add: u_def)
    have "of_int k \<le> x / u" using yx u by (simp add: y uj pos_le_divide_eq)
    then have "k \<le> kx" unfolding kx(2) by (rule round_half_even_ge)
    then have "of_int k * u \<le> of_int kx * u"
      using u by (rule of_int_mult_right_mono)
    then show ?thesis by (simp add: y uj)
  next
    case False
    then have "j + 53 \<le> e" using e_lo by simp
    then have "(2::rat) powi (j + 53) \<le> 2 powi e" by (rule powi_mono)
    also have "\<dots> = of_int (2 ^ 52) * u" by (simp add: u_def power_int_diff)
    also have "\<dots> \<le> of_int kx * u"
      using kx(3) u by (rule of_int_mult_right_mono)
    finally show ?thesis using yhi by linarith
  qed
  show ?thesis using kx(1) lo hi by (simp add: e_def)
qed

lemma powi_64_less: "(2::rat) powi 64 < 2 powi 1023"
  by (rule powi_strict_mono) simp

text \<open>\<open>float64(x)\<close> of a positive unsigned integer is finite and not below a binary64 lower bound.\<close>

lemma float64_of_uint_ge:
  assumes "y = of_int k * 2 powi j" and "2 ^ 52 \<le> k" "k < 2 ^ 53" and "- 1074 \<le> j"
    and "y \<le> of_nat (unat bp)"
  shows "\<exists>r. float64_of_uint bp = Finite r \<and> y \<le> r \<and> r \<le> 2 powi 64"
proof -
  define x :: rat where "x = of_nat (unat bp)"
  have "unat bp < 2 ^ 64" using unsigned_less [of bp] by simp
  then have "x < of_nat (2 ^ 64)" unfolding x_def by (simp only: of_nat_less_iff)
  then have x64: "x < 2 powi 64" by simp
  then have x: "x < 2 powi 1023" using powi_64_less by linarith
  from f64_round_ge [OF assms(1-4) _ x] assms(5)
  obtain r where r: "f64_round x = Finite r" "y \<le> r" "r \<le> 2 powi (floor_log2 x + 1)"
    by (auto simp: x_def)
  have "0 < y" using assms(1,2) by (simp add: zero_less_mult_iff)
  then have "0 < x" using assms(5) by (simp add: x_def)
  then have "floor_log2 x < 64" using x64 by (rule floor_log2_less)
  then have "(2::rat) powi (floor_log2 x + 1) \<le> 2 powi 64" by (intro powi_mono) simp
  then show ?thesis using r by (auto simp: float64_of_uint_def x_def)
qed

text \<open>
  Subtracting from 1 a non-negative binary64 number whose unit in the last place is at most
  1: the result is finite and has the sign of the exact difference.
\<close>

lemma f64_sub_one:
  assumes q: "q = of_int k * 2 powi j" and j: "- 1022 \<le> j" "j \<le> 0" and q0: "0 \<le> q"
    and qhi: "q < 2 powi 1022"
  shows "\<exists>r. f64_sub (Finite 1) (Finite q) = Finite r
             \<and> (1 < q \<longrightarrow> r < 0) \<and> (q < 1 \<longrightarrow> 0 < r) \<and> (q = 1 \<longrightarrow> r = 0)"
proof (cases "q = 1")
  case True
  then show ?thesis by (simp add: f64_round_def)
next
  case False
  define x where "x = 1 - q"
  define u :: rat where "u = 2 powi j"
  define n where "n = 2 ^ nat (- j) - k"
  have u: "0 < u" by (simp add: u_def)
  have x0: "x \<noteq> 0" using False by (simp add: x_def)
  have one: "(1::rat) = of_int (2 ^ nat (- j)) * u"
    using j(2) by (simp add: u_def power_int_def field_simps)
  have xn: "x = of_int n * u"
    unfolding x_def n_def q by (subst one) (simp add: u_def algebra_simps)
  have n0: "n \<noteq> 0" using x0 xn by auto
  then have "1 \<le> \<bar>n\<bar>" by simp
  then have "of_int 1 * u \<le> of_int \<bar>n\<bar> * u" using u by (rule of_int_mult_right_mono)
  also have "\<dots> = \<bar>x\<bar>" using u by (simp add: xn abs_mult)
  finally have "2 powi j \<le> \<bar>x\<bar>" by (simp add: u_def)
  then have "j \<le> floor_log2 \<bar>x\<bar>" by (rule floor_log2_ge)
  then have lo: "- 1022 \<le> floor_log2 \<bar>x\<bar>" using j(1) by simp
  have "\<bar>x\<bar> \<le> 1 + q" using q0 by (simp add: x_def)
  also have "\<dots> < 2 powi 1022 + 2 powi 1022"
  proof -
    have "(1::rat) = 2 powi 0" by simp
    also have "\<dots> \<le> 2 powi 1022" by (rule powi_mono) simp
    finally show ?thesis using qhi by linarith
  qed
  also have "\<dots> = 2 powi 1023"
  proof -
    have "(2::rat) powi 1023 = 2 powi (1022 + 1)" by simp
    also have "\<dots> = 2 * 2 powi 1022" by (rule powi_add1)
    finally show ?thesis by simp
  qed
  finally have "floor_log2 \<bar>x\<bar> < 1023" using x0 by (intro floor_log2_less) simp_all
  from f64_round_normal [OF x0 lo this]
  obtain k' where k': "f64_round x = Finite (of_int k' * 2 powi (floor_log2 \<bar>x\<bar> - 52))"
      "0 < x \<longrightarrow> 2 ^ 52 \<le> k'" "x < 0 \<longrightarrow> k' \<le> - (2 ^ 52)"
    by auto
  have p: "(0::rat) < 2 powi (floor_log2 \<bar>x\<bar> - 52)" by simp
  have "of_int k' * (2::rat) powi (floor_log2 \<bar>x\<bar> - 52) < 0" if "1 < q"
  proof -
    from that k'(3) have "k' < 0" by (simp add: x_def)
    then show ?thesis using p by (simp add: mult_less_0_iff)
  qed
  moreover have "0 < of_int k' * (2::rat) powi (floor_log2 \<bar>x\<bar> - 52)" if "q < 1"
  proof -
    from that k'(2) have "0 < k'" by (simp add: x_def)
    then show ?thesis using p by (simp add: zero_less_mult_iff)
  qed
  ultimately show ?thesis using k'(1) False by (simp add: x_def)
qed

lemma powi_neg_numeral: "(2::rat) powi (- numeral n) = 1 / 2 ^ numeral n"
  by (simp add: power_int_minus field_simps)

text \<open>Dividing a binary64 number between 1 and \<open>2\<^sup>6\<^sup>4\<close> by the constant \<open>10e3\<close>.\<close>

lemma f64_div_10e3:
  assumes "1 \<le> r1" and "r1 \<le> 2 powi 64"
  shows "\<exists>q k j. f64_div (Finite r1) (Finite (10 * 10 ^ 3)) = Finite q
           \<and> q = of_int k * 2 powi j \<and> - 1022 \<le> j \<and> j \<le> 0 \<and> 0 \<le> q \<and> q < 2 powi 1022
           \<and> (10001 \<le> r1 \<longrightarrow> 1 < q)"
proof -
  define x where "x = r1 / 10000"
  define e where "e = floor_log2 x"
  have div: "f64_div (Finite r1) (Finite (10 * 10 ^ 3)) = f64_round x"
    by (simp add: x_def)
  have xpos: "0 < x" using assms(1) by (simp add: x_def)
  have "(2::rat) powi (- 14) = 1 / 2 ^ 14" by (rule powi_neg_numeral)
  also have "\<dots> \<le> 1 / 10000" by simp
  also have "\<dots> \<le> x" using assms(1) by (simp add: x_def)
  finally have e_lo: "- 14 \<le> e" unfolding e_def by (rule floor_log2_ge)
  have "(2::rat) powi 64 = 2 powi 13 * 2 powi 51" by (simp flip: power_int_add)
  then have "x \<le> 2 powi 13 * 2 powi 51 / 10000" using assms(2) by (simp add: x_def)
  also have "\<dots> < 2 powi 51" by simp
  finally have x51: "x < 2 powi 51" .
  then have e_hi: "e < 51" unfolding e_def using xpos by (intro floor_log2_less)
  have ax: "\<bar>x\<bar> = x" using xpos by simp
  from f64_round_normal [of x] xpos e_lo e_hi
  obtain k where k: "f64_round x = Finite (of_int k * 2 powi (e - 52))" "2 ^ 52 \<le> k" "k \<le> 2 ^ 53"
    by (auto simp: ax e_def)
  define q :: rat where "q = of_int k * 2 powi (e - 52)"
  have p: "(0::rat) < 2 powi (e - 52)" by simp
  have q0: "0 \<le> q" using k(2) p by (simp add: q_def zero_le_mult_iff)
  have "q \<le> of_int (2 ^ 53) * 2 powi (e - 52)"
    unfolding q_def using k(3) p by (rule of_int_mult_right_mono)
  also have "\<dots> = 2 powi (e + 1)" by (simp add: power_int_diff power_int_add)
  also have "\<dots> < 2 powi 1022" using e_hi by (intro powi_strict_mono) simp
  finally have qhi: "q < 2 powi 1022" .
  have big: "1 < q" if "10001 \<le> r1"
  proof -
    have y: "(4503599627370497 / 4503599627370496 :: rat) = of_int (2 ^ 52 + 1) * 2 powi (- 52)"
      by (simp add: powi_neg_numeral)
    have "(4503599627370497 / 4503599627370496 :: rat) \<le> 10001 / 10000" by simp
    also have "\<dots> \<le> x" using that by (simp add: x_def)
    finally have yx: "(4503599627370497 / 4503599627370496 :: rat) \<le> x" .
    have x1023: "x < 2 powi 1023"
    proof -
      have "(2::rat) powi 51 < 2 powi 1023" by (rule powi_strict_mono) simp
      then show ?thesis using x51 by linarith
    qed
    from f64_round_ge [OF y _ _ _ yx x1023]
    obtain r where "f64_round x = Finite r" "4503599627370497 / 4503599627370496 \<le> r" by auto
    then show ?thesis using k(1) by (simp add: q_def)
  qed
  show ?thesis
    using div k(1) e_lo e_hi q0 qhi big
    by (intro exI [of _ q] exI [of _ k] exI [of _ "e - 52"]) (simp add: q_def)
qed

text \<open>
  The conversion never fails: its result is a finite number for every \<open>bp\<close>, and a negative
  one when \<open>bp\<close> is above 10000.
\<close>

lemma convertSlippage_finite:
  "\<exists>r. convertSlippageBasisPointsToPercentage bp = Finite r \<and> (10000 < unat bp \<longrightarrow> r < 0)"
proof (cases "unat bp = 0")
  case True
  then have "float64_of_uint bp = Finite 0" by (simp add: float64_of_uint_def f64_round_def)
  moreover have "f64_div (Finite 0) (Finite (10 * 10 ^ 3)) = Finite 0" by (simp add: f64_round_def)
  moreover have "f64_sub (Finite 1) (Finite 0) = Finite 1" by code_simp
  ultimately show ?thesis using True by (simp add: convertSlippageBasisPointsToPercentage_def)
next
  case False
  then have "1 \<le> unat bp" by simp
  then have "(of_nat 1 :: rat) \<le> of_nat (unat bp)" by (simp only: of_nat_le_iff)
  then have one: "(1::rat) \<le> of_nat (unat bp)" by (simp only: of_nat_1)
  have y1: "(1::rat) = of_int (2 ^ 52) * 2 powi (- 52)" by (simp add: powi_neg_numeral)
  from float64_of_uint_ge [OF y1 _ _ _ one]
  obtain r1 where r1: "float64_of_uint bp = Finite r1" "1 \<le> r1" "r1 \<le> 2 powi 64" by auto
  have r1_big: "10001 \<le> r1" if "10000 < unat bp"
  proof -
    have y: "(10001::rat) = of_int (10001 * 2 ^ 39) * 2 powi (- 39)"
      by (simp add: powi_neg_numeral)
    from that have "10001 \<le> unat bp" by simp
    then have "(of_nat 10001 :: rat) \<le> of_nat (unat bp)" by (simp only: of_nat_le_iff)
    then have "(10001::rat) \<le> of_nat (unat bp)" by (simp only: of_nat_numeral)
    from float64_of_uint_ge [OF y _ _ _ this]
    obtain r where "float64_of_uint bp = Finite r" "10001 \<le> r" by auto
    then show ?thesis using r1(1) by simp
  qed
  from f64_div_10e3 [OF r1(2,3)]
  obtain q k j where q: "f64_div (Finite r1) (Finite (10 * 10 ^ 3)) = Finite q"
      "q = of_int k * 2 powi j" "- 1022 \<le> j" "j \<le> 0" "0 \<le> q" "q < 2 powi 1022"
      "10001 \<le> r1 \<longrightarrow> 1 < q"
    by blast
  from f64_sub_one [OF q(2-6)]
  obtain r where r: "f64_sub (Finite 1) (Finite q) = Finite r" "1 < q \<longrightarrow> r < 0" by blast
  show ?thesis
    using r1(1) q(1) r r1_big q(7)
    by (auto simp: convertSlippageBasisPointsToPercentage_def)
qed

text \<open>
  C9.  The conversion computes \<open>1.0 - bp/10000.0\<close> in binary64 arithmetic (the constant \<open>10e3\<close> is
  10000).  It has no failure: the result is a finite number for every \<open>bp\<close>, negative when \<open>bp\<close>
  is above 10000.  It maps 0 to 1.0, 100 to the binary64 number 0.99 and 10000 to 0.0.
\<close>

theorem convertSlippage_values:
  "convertSlippageBasisPointsToPercentage bp = basisPointsToMultiplier bp
   \<and> (\<exists>r. convertSlippageBasisPointsToPercentage bp = Finite r \<and> (10000 < unat bp \<longrightarrow> r < 0))
   \<and> convertSlippageBasisPointsToPercentage 0 = Finite 1
   \<and> convertSlippageBasisPointsToPercentage 100 = f64_round (99 / 100)
   \<and> convertSlippageBasisPointsToPercentage 10000 = Finite 0"
proof -
  have spec: "convertSlippageBasisPointsToPercentage bp = basisPointsToMultiplier bp"
    by (simp add: convertSlippageBasisPointsToPercentage_def basisPointsToMultiplier_def)
  have v0: "convertSlippageBasisPointsToPercentage 0 = Finite 1"
  proof -
    have "float64_of_uint 0 = Finite 0" by (simp add: float64_of_uint_def f64_round_def)
    moreover have "f64_div (Finite 0) (Finite (10 * 10 ^ 3)) = Finite 0"
      by (simp add: f64_round_def)
    moreover have "f64_sub (Finite 1) (Finite 0) = Finite 1" by code_simp
    ultimately show ?thesis by (simp only: convertSlippageBasisPointsToPercentage_def)
  qed
  have v100: "convertSlippageBasisPointsToPercentage 100 = f64_round (99 / 100)"
  proof -
    have "float64_of_uint 100 = f64_round 100" by (simp add: float64_of_uint_def)
    moreover have "f64_round 100 = Finite 100" by code_simp
    moreover have "f64_div (Finite 100) (Finite (10 * 10 ^ 3))
                     = Finite (5764607523034235 / 576460752303423488)"
      by code_simp
    moreover have "f64_sub (Finite 1) (Finite (5764607523034235 / 576460752303423488))
                     = Finite (4458563631096791 / 4503599627370496)"
      by code_simp
    moreover have "f64_round (99 / 100) = Finite (4458563631096791 / 4503599627370496)"
      by code_simp
    ultimately show ?thesis by (simp only: convertSlippageBasisPointsToPercentage_def)
  qed
  have v10000: "convertSlippageBasisPointsToPercentage 10000 = Finite 0"
  proof -
    have "float64_of_uint 10000 = f64_round 10000" by (simp add: float64_of_uint_def)
    moreover have "f64_round 10000 = Finite 10000" by code_simp
    moreover have "f64_div (Finite 10000) (Finite (10 * 10 ^ 3)) = Finite 1" by code_simp
    moreover have "f64_sub (Finite 1) (Finite 1) = Finite 0" by code_simp
    ultimately show ?thesis by (simp only: convertSlippageBasisPointsToPercentage_def)
  qed
  from convertSlippage_finite [of bp]
  have fin: "\<exists>r. convertSlippageBasisPointsToPercentage bp = Finite r
               \<and> (10000 < unat bp \<longrightarrow> r < 0)" .
  show ?thesis
    by (intro conjI) (rule spec, rule fin, rule v0, rule v100, rule v10000)
qed

theorem convertSlippage_values_witness:
  "\<exists>r. convertSlippageBasisPointsToPercentage 10001 = Finite r \<and> r < 0"
proof -
  have "10000 < unat (10001::uint)" by simp
  with convertSlippage_values [of 10001] show ?thesis by blast
qed

section \<open>Properties of the instruction assembler\<close>

lemma and_then_Return_iff:
  "and_then r f = Return y \<longleftrightarrow> (\<exists>x. r = Return x \<and> f x = Return y)"
  by (cases r) simp_all

lemma from_lib_Return_iff [simp]: "from_lib msg r = Return x \<longleftrightarrow> r = Inr x"
  by (cases r) (simp_all add: from_lib_def)

lemma wrap_Return_iff [simp]: "wrap msg r = Return x \<longleftrightarrow> r = Return x"
  by (cases r) (simp_all add: wrap_def)



lemma convertSlippage_0: "convertSlippageBasisPointsToPercentage 0 = Finite 1"
proof -
  have "float64_of_uint 0 = Finite 0" by (simp add: float64_of_uint_def f64_round_def)
  moreover have "f64_div (Finite 0) (Finite (10 * 10 ^ 3)) = Finite 0"
    by (simp add: f64_round_def)
  moreover have "f64_sub (Finite 1) (Finite 0) = Finite 1" by code_simp
  ultimately show ?thesis by (simp only: convertSlippageBasisPointsToPercentage_def)
qed

lemma curve_bytes_values:
  "le_value (take 8 curve_bytes) = 0"
  "le_value (take 8 (drop 8 curve_bytes)) = 1000000000"
  "le_value (take 8 (drop 16 curve_bytes)) = 1000000"
  by (simp_all add: curve_bytes_def)

lemma example_fetch:
  "fetchBondingCurve (example_client lookup balance) pk = Return (snapshot 1000000 1000000000)"
proof -
  have a: "GetAccountInfoWithOpts (example_client lookup balance) pk
             = Inr \<lparr> Value = Some \<lparr> Data = curve_bytes \<rparr> \<rparr>"
    by (simp add: example_client_def)
  have b: "24 \<le> length curve_bytes" by (simp add: curve_bytes_def)
  show ?thesis
    by (simp only: fetchBondingCurve_long [OF a b] curve_bytes_values snapshot_def) simp
qed

lemma example_derive:
  "getBondingCurveAndAssociatedBondingCurve example_lib mint
     = Return \<lparr> BondingCurve = ''curve'', AssociatedBondingCurve = ''ata:curve'' \<rparr>"
  by (simp add: getBondingCurveAndAssociatedBondingCurve_def example_lib_def from_lib_def)






lemma strconv_Atoi_zero: "strconv_Atoi ''0'' = Inr 0"
  by (simp add: strconv_Atoi_def is_digit_def)

lemma big_Int_Div_zero_left: "y \<noteq> 0 \<Longrightarrow> big_Int_Div 0 y = Return 0"
  by (simp add: big_Int_Div_def big_Int_Quo_def)

text \<open>
  Selling nothing against a curve whose virtual token reserve is not 0 gives the quote 0,
  whatever the slippage.
\<close>

lemma calculateSellQuote_zero:
  assumes "VirtualTokenReserves bc \<noteq> 0"
  shows "calculateSellQuote 0 bc (convertSlippageBasisPointsToPercentage bp) = Return (Some 0)"
proof -
  obtain r where r: "convertSlippageBasisPointsToPercentage bp = Finite r"
    using convertSlippage_finite [of bp] by blast
  show ?thesis
    using assms
    by (simp add: r calculateSellQuote_def NewInt_int64_def sellQuote_big_def
        big_Int_Div_zero_left slippage_step_finite)
qed

text \<open>
  When \<open>getSellInstructions\<close> returns, and what: every call before the quote succeeded, the
  quote did not panic, the instruction passed validation, and the instruction sells the
  requested amount or, with \<open>all\<close>, the balance.
\<close>

lemma getSellInstructions_iff:
  "getSellInstructions lib feeRecipient rpcClient user mint amount bp all = Return instr
   \<longleftrightarrow>
   (\<exists>ata sold bondingCurveData bondingCurve quote minSol.
           FindAssociatedTokenAddress lib (PublicKey user) mint = Inr ata
         \<and> (if all
             then \<exists>balance n. GetTokenAccountBalance rpcClient ata = Inr balance
                    \<and> strconv_Atoi balance = Inr n \<and> sold = word_of_int n
             else sold = amount)
         \<and> getBondingCurveAndAssociatedBondingCurve lib mint = Return bondingCurveData
         \<and> fetchBondingCurve rpcClient (BondingCurve bondingCurveData) = Return bondingCurve
         \<and> calculateSellQuote sold bondingCurve (convertSlippageBasisPointsToPercentage bp)
             = Return quote
         \<and> big_Int_Uint64 quote = Return minSol
         \<and> Validate lib (PumpSell sold minSol
               (sell_accounts feeRecipient mint bondingCurveData ata (PublicKey user))) = None
         \<and> instr = PumpSell sold minSol
                      (sell_accounts feeRecipient mint bondingCurveData ata (PublicKey user)))"
  by (cases all)
    (auto simp: getSellInstructions_def and_then_Return_iff Let_def split: option.splits)

lemma SellToken_instructions_iff:
  "SellToken_instructions lib feeRecipient rpcClient user mint amount bp all = Return instructions
   \<longleftrightarrow>
   (\<exists>instr. getSellInstructions lib feeRecipient rpcClient user mint amount bp all = Return instr
       \<and> instructions = [SetComputeUnitLimit 250000, SetComputeUnitPrice 10000, instr])"
  by (auto simp: SellToken_instructions_def and_then_Return_iff Let_def)

lemma zero_bytes_values:
  "le_value (take 8 zero_bytes) = 0"
  "le_value (take 8 (drop 8 zero_bytes)) = 0"
  "le_value (take 8 (drop 16 zero_bytes)) = 0"
  by (simp_all add: zero_bytes_def)

lemma zero_curve_fetch:
  "fetchBondingCurve (zero_curve_client lookup balance) pk = Return (snapshot 0 0)"
proof -
  have a: "GetAccountInfoWithOpts (zero_curve_client lookup balance) pk
             = Inr \<lparr> Value = Some \<lparr> Data = zero_bytes \<rparr> \<rparr>"
    by (simp add: zero_curve_client_def)
  have b: "24 \<le> length zero_bytes" by (simp add: zero_bytes_def)
  show ?thesis
    by (simp only: fetchBondingCurve_long [OF a b] zero_bytes_values snapshot_def) simp
qed

text \<open>
  C8.  The claim: with "sell all", a balance of 0 still produces a valid zero-output quote
  rather than failing.  On a curve that was never initialised (all reserves 0, as decoded
  from 24 zero bytes) the divisor of the sell quote is \<open>0 + 0\<close>, and the flow panics with
  "division by zero" instead of assembling a list.
\<close>

theorem SellToken_instructions_counterexample:
  "GetTokenAccountBalance (zero_curve_client (Inl ErrNotFound) (Inr ''0'')) ''ata:user'' = Inr ''0''
   \<and> fetchBondingCurve (zero_curve_client (Inl ErrNotFound) (Inr ''0'')) ''curve''
       = Return (snapshot 0 0)
   \<and> SellToken_instructions example_lib ''fee'' (zero_curve_client (Inl ErrNotFound) (Inr ''0''))
       example_user ''mint'' 1000 100 True
     = Panic BigDivisionByZero"
proof -
  have ata: "FindAssociatedTokenAddress example_lib ''user'' ''mint'' = Inr ''ata:user''"
    by (simp add: example_lib_def)
  have bal: "GetTokenAccountBalance (zero_curve_client (Inl ErrNotFound) (Inr ''0'')) ''ata:user''
               = Inr ''0''"
    by (simp add: zero_curve_client_def example_client_def)
  have q: "calculateSellQuote 0 (snapshot 0 0) m = Panic BigDivisionByZero" for m
    by (simp add: calculateSellQuote_def NewInt_int64_def sellQuote_big_zero snapshot_def)
  have "SellToken_instructions example_lib ''fee''
          (zero_curve_client (Inl ErrNotFound) (Inr ''0'')) example_user ''mint'' 1000 100 True
        = Panic BigDivisionByZero"
    by (simp add: SellToken_instructions_def getSellInstructions_def example_derive ata bal
        strconv_Atoi_zero zero_curve_fetch q example_user_def wrap_def from_lib_def)
  with bal zero_curve_fetch show ?thesis by simp
qed

text \<open>
  C8, amended.  The sell flow returns a list exactly when the address derivations, the
  balance query (with "sell all" only), the fetch of the curve, the quote and the validation
  of the sell instruction all succeed, and the list is then the compute-unit limit 250000,
  the compute-unit price 10000 and the sell instruction, with no step that creates an
  account.  The amount sold and quoted is the requested amount, or with "sell all" the
  balance the ledger reports.  On a snapshot with a positive virtual token reserve and an
  amount below \<open>2\<^sup>6\<^sup>3\<close> the quote succeeds and the minimum SOL output is the sell quote of
  the specification.  With "sell all" and a balance of 0, on every snapshot whose virtual
  token reserve is not 0, the flow returns the list, selling 0 for a minimum of 0.
\<close>

theorem SellToken_instructions_list:
  "(SellToken_instructions lib feeRecipient rpcClient user mint amount bp all
      = Return instructions \<longleftrightarrow>
      (\<exists>ata sold bondingCurveData bondingCurve quote minSol.
           FindAssociatedTokenAddress lib (PublicKey user) mint = Inr ata
         \<and> (if all
             then \<exists>balance n. GetTokenAccountBalance rpcClient ata = Inr balance
                    \<and> strconv_Atoi balance = Inr n \<and> sold = word_of_int n
             else sold = amount)
         \<and> getBondingCurveAndAssociatedBondingCurve lib mint = Return bondingCurveData
         \<and> fetchBondingCurve rpcClient (BondingCurve bondingCurveData) = Return bondingCurve
         \<and> calculateSellQuote sold bondingCurve (convertSlippageBasisPointsToPercentage bp)
             = Return quote
         \<and> big_Int_Uint64 quote = Return minSol
         \<and> Validate lib (PumpSell sold minSol
               (sell_accounts feeRecipient mint bondingCurveData ata (PublicKey user))) = None
         \<and> instructions =
             [SetComputeUnitLimit 250000, SetComputeUnitPrice 10000,
              PumpSell sold minSol
                (sell_accounts feeRecipient mint bondingCurveData ata (PublicKey user))]))
   \<and> (\<exists>r. convertSlippageBasisPointsToPercentage bp = Finite r
        \<and> (FindAssociatedTokenAddress lib (PublicKey user) mint = Inr ata0
            \<and> (if all
                then \<exists>balance n. GetTokenAccountBalance rpcClient ata0 = Inr balance
                       \<and> strconv_Atoi balance = Inr n \<and> sold0 = word_of_int n
                else sold0 = amount)
            \<and> getBondingCurveAndAssociatedBondingCurve lib mint = Return curve0
            \<and> fetchBondingCurve rpcClient (BondingCurve curve0) = Return snapshot0
            \<and> 0 < VirtualTokenReserves snapshot0
            \<and> uint sold0 < 2 ^ 63
            \<and> Validate lib (PumpSell sold0 (word_of_int \<bar>quoteSell (uint sold0) snapshot0 r\<bar>)
                  (sell_accounts feeRecipient mint curve0 ata0 (PublicKey user))) = None
            \<longrightarrow> SellToken_instructions lib feeRecipient rpcClient user mint amount bp all
                = Return [SetComputeUnitLimit 250000, SetComputeUnitPrice 10000,
                          PumpSell sold0 (word_of_int \<bar>quoteSell (uint sold0) snapshot0 r\<bar>)
                            (sell_accounts feeRecipient mint curve0 ata0 (PublicKey user))]))
   \<and> (FindAssociatedTokenAddress lib (PublicKey user) mint = Inr ata0
      \<and> GetTokenAccountBalance rpcClient ata0 = Inr ''0''
      \<and> getBondingCurveAndAssociatedBondingCurve lib mint = Return curve0
      \<and> fetchBondingCurve rpcClient (BondingCurve curve0) = Return snapshot0
      \<and> VirtualTokenReserves snapshot0 \<noteq> 0
      \<and> Validate lib (PumpSell 0 0 (sell_accounts feeRecipient mint curve0 ata0 (PublicKey user)))
          = None
      \<longrightarrow> SellToken_instructions lib feeRecipient rpcClient user mint amount bp True
          = Return [SetComputeUnitLimit 250000, SetComputeUnitPrice 10000,
                    PumpSell 0 0 (sell_accounts feeRecipient mint curve0 ata0 (PublicKey user))])"
proof (intro conjI)
  show "SellToken_instructions lib feeRecipient rpcClient user mint amount bp all
      = Return instructions \<longleftrightarrow>
      (\<exists>ata sold bondingCurveData bondingCurve quote minSol.
           FindAssociatedTokenAddress lib (PublicKey user) mint = Inr ata
         \<and> (if all
             then \<exists>balance n. GetTokenAccountBalance rpcClient ata = Inr balance
                    \<and> strconv_Atoi balance = Inr n \<and> sold = word_of_int n
             else sold = amount)
         \<and> getBondingCurveAndAssociatedBondingCurve lib mint = Return bondingCurveData
         \<and> fetchBondingCurve rpcClient (BondingCurve bondingCurveData) = Return bondingCurve
         \<and> calculateSellQuote sold bondingCurve (convertSlippageBasisPointsToPercentage bp)
             = Return quote
         \<and> big_Int_Uint64 quote = Return minSol
         \<and> Validate lib (PumpSell sold minSol
               (sell_accounts feeRecipient mint bondingCurveData ata (PublicKey user))) = None
         \<and> instructions =
             [SetComputeUnitLimit 250000, SetComputeUnitPrice 10000,
              PumpSell sold minSol
                (sell_accounts feeRecipient mint bondingCurveData ata (PublicKey user))])"
    unfolding SellToken_instructions_iff getSellInstructions_iff by blast
next
  obtain r where r: "convertSlippageBasisPointsToPercentage bp = Finite r"
    using convertSlippage_finite [of bp] by blast
  have "SellToken_instructions lib feeRecipient rpcClient user mint amount bp all
          = Return [SetComputeUnitLimit 250000, SetComputeUnitPrice 10000,
                    PumpSell sold0 (word_of_int \<bar>quoteSell (uint sold0) snapshot0 r\<bar>)
                      (sell_accounts feeRecipient mint curve0 ata0 (PublicKey user))]"
    if a: "FindAssociatedTokenAddress lib (PublicKey user) mint = Inr ata0
            \<and> (if all
                then \<exists>balance n. GetTokenAccountBalance rpcClient ata0 = Inr balance
                       \<and> strconv_Atoi balance = Inr n \<and> sold0 = word_of_int n
                else sold0 = amount)
            \<and> getBondingCurveAndAssociatedBondingCurve lib mint = Return curve0
            \<and> fetchBondingCurve rpcClient (BondingCurve curve0) = Return snapshot0
            \<and> 0 < VirtualTokenReserves snapshot0
            \<and> uint sold0 < 2 ^ 63
            \<and> Validate lib (PumpSell sold0 (word_of_int \<bar>quoteSell (uint sold0) snapshot0 r\<bar>)
                  (sell_accounts feeRecipient mint curve0 ata0 (PublicKey user))) = None"
  proof -
    from a have vt: "0 < VirtualTokenReserves snapshot0" and s: "uint sold0 < 2 ^ 63" by simp_all
    have q: "calculateSellQuote sold0 snapshot0 (convertSlippageBasisPointsToPercentage bp)
               = Return (Some (quoteSell (uint sold0) snapshot0 r))"
      unfolding r using vt s by (rule calculateSellQuote_formula)
    have u: "big_Int_Uint64 (Some (quoteSell (uint sold0) snapshot0 r))
               = Return (word_of_int \<bar>quoteSell (uint sold0) snapshot0 r\<bar>)"
      by (simp add: big_Int_Uint64_def)
    show ?thesis
      unfolding SellToken_instructions_iff getSellInstructions_iff
      using a q u by blast
  qed
  with r show "\<exists>r. convertSlippageBasisPointsToPercentage bp = Finite r
        \<and> (FindAssociatedTokenAddress lib (PublicKey user) mint = Inr ata0
            \<and> (if all
                then \<exists>balance n. GetTokenAccountBalance rpcClient ata0 = Inr balance
                       \<and> strconv_Atoi balance = Inr n \<and> sold0 = word_of_int n
                else sold0 = amount)
            \<and> getBondingCurveAndAssociatedBondingCurve lib mint = Return curve0
            \<and> fetchBondingCurve rpcClient (BondingCurve curve0) = Return snapshot0
            \<and> 0 < VirtualTokenReserves snapshot0
            \<and> uint sold0 < 2 ^ 63
            \<and> Validate lib (PumpSell sold0 (word_of_int \<bar>quoteSell (uint sold0) snapshot0 r\<bar>)
                  (sell_accounts feeRecipient mint curve0 ata0 (PublicKey user))) = None
            \<longrightarrow> SellToken_instructions lib feeRecipient rpcClient user mint amount bp all
                = Return [SetComputeUnitLimit 250000, SetComputeUnitPrice 10000,
                          PumpSell sold0 (word_of_int \<bar>quoteSell (uint sold0) snapshot0 r\<bar>)
                            (sell_accounts feeRecipient mint curve0 ata0 (PublicKey user))])"
    by blast
next
  show "FindAssociatedTokenAddress lib (PublicKey user) mint = Inr ata0
      \<and> GetTokenAccountBalance rpcClient ata0 = Inr ''0''
      \<and> getBondingCurveAndAssociatedBondingCurve lib mint = Return curve0
      \<and> fetchBondingCurve rpcClient (BondingCurve curve0) = Return snapshot0
      \<and> VirtualTokenReserves snapshot0 \<noteq> 0
      \<and> Validate lib (PumpSell 0 0 (sell_accounts feeRecipient mint curve0 ata0 (PublicKey user)))
          = None
      \<longrightarrow> SellToken_instructions lib feeRecipient rpcClient user mint amount bp True
          = Return [SetComputeUnitLimit 250000, SetComputeUnitPrice 10000,
                    PumpSell 0 0 (sell_accounts feeRecipient mint curve0 ata0 (PublicKey user))]"
  proof
    assume a: "FindAssociatedTokenAddress lib (PublicKey user) mint = Inr ata0
      \<and> GetTokenAccountBalance rpcClient ata0 = Inr ''0''
      \<and> getBondingCurveAndAssociatedBondingCurve lib mint = Return curve0
      \<and> fetchBondingCurve rpcClient (BondingCurve curve0) = Return snapshot0
      \<and> VirtualTokenReserves snapshot0 \<noteq> 0
      \<and> Validate lib (PumpSell 0 0 (sell_accounts feeRecipient mint curve0 ata0 (PublicKey user)))
          = None"
    then have q: "calculateSellQuote 0 snapshot0 (convertSlippageBasisPointsToPercentage bp)
                    = Return (Some 0)"
      by (intro calculateSellQuote_zero) simp
    have u: "big_Int_Uint64 (Some 0) = Return 0" by (simp add: big_Int_Uint64_def)
    show "SellToken_instructions lib feeRecipient rpcClient user mint amount bp True
          = Return [SetComputeUnitLimit 250000, SetComputeUnitPrice 10000,
                    PumpSell 0 0 (sell_accounts feeRecipient mint curve0 ata0 (PublicKey user))]"
      using a
      by (simp add: SellToken_instructions_def getSellInstructions_def strconv_Atoi_zero q u
          wrap_def from_lib_def)
  qed
qed

lemma example_quoteSell: "quoteSell 5000 (snapshot 1000000 1000000000) 1 = 4"
  by (simp add: quoteSell_def snapshot_def)

text \<open>
  The theorem at the example ledger: a requested amount of 5000 without "sell all" (the
  list sells 5000 for at least 4), and "sell all" at a balance of 0 with a slippage of 100
  basis points (the list sells 0 for at least 0).
\<close>

theorem SellToken_instructions_list_witness:
  "SellToken_instructions example_lib ''fee'' (example_client (Inl ErrNotFound) (Inr ''0''))
       example_user ''mint'' 5000 0 False
     = Return [SetComputeUnitLimit 250000, SetComputeUnitPrice 10000,
               PumpSell 5000 4
                 (sell_accounts ''fee'' ''mint''
                    \<lparr> BondingCurve = ''curve'', AssociatedBondingCurve = ''ata:curve'' \<rparr>
                    ''ata:user'' ''user'')]
   \<and> SellToken_instructions example_lib ''fee'' (example_client (Inl ErrNotFound) (Inr ''0''))
       example_user ''mint'' 1000 100 True
     = Return [SetComputeUnitLimit 250000, SetComputeUnitPrice 10000,
               PumpSell 0 0
                 (sell_accounts ''fee'' ''mint''
                    \<lparr> BondingCurve = ''curve'', AssociatedBondingCurve = ''ata:curve'' \<rparr>
                    ''ata:user'' ''user'')]"
proof -
  define client where "client = example_client (Inl ErrNotFound) (Inr ''0'')"
  define curve where
    "curve = \<lparr> BondingCurve = ''curve'', AssociatedBondingCurve = ''ata:curve'' \<rparr>"
  have ata: "FindAssociatedTokenAddress example_lib (PublicKey example_user) ''mint''
               = Inr ''ata:user''"
    by (simp add: example_lib_def example_user_def)
  have bal: "GetTokenAccountBalance client ''ata:user'' = Inr ''0''"
    by (simp add: client_def example_client_def)
  have der: "getBondingCurveAndAssociatedBondingCurve example_lib ''mint'' = Return curve"
    by (simp add: example_derive curve_def)
  have fet: "fetchBondingCurve client (BondingCurve curve) = Return (snapshot 1000000 1000000000)"
    by (simp add: client_def example_fetch)
  have vt: "0 < VirtualTokenReserves (snapshot 1000000 1000000000)"
    "VirtualTokenReserves (snapshot 1000000 1000000000) \<noteq> 0"
    by (simp_all add: snapshot_def)
  have val: "Validate example_lib i = None" for i
    by (simp add: example_lib_def)
  have s: "uint (5000::uint64) < 2 ^ 63" by simp
  note inst = SellToken_instructions_list
    [of example_lib "''fee''" client example_user "''mint''" 5000 0 False "[]"
      "''ata:user''" 5000 curve "snapshot 1000000 1000000000"]
  from inst obtain r where r: "convertSlippageBasisPointsToPercentage 0 = Finite r"
    and imp: "FindAssociatedTokenAddress example_lib (PublicKey example_user) ''mint''
                = Inr ''ata:user''
            \<and> (if False
                then \<exists>balance n. GetTokenAccountBalance client ''ata:user'' = Inr balance
                       \<and> strconv_Atoi balance = Inr n \<and> (5000::uint64) = word_of_int n
                else (5000::uint64) = 5000)
            \<and> getBondingCurveAndAssociatedBondingCurve example_lib ''mint'' = Return curve
            \<and> fetchBondingCurve client (BondingCurve curve) = Return (snapshot 1000000 1000000000)
            \<and> 0 < VirtualTokenReserves (snapshot 1000000 1000000000)
            \<and> uint (5000::uint64) < 2 ^ 63
            \<and> Validate example_lib
                 (PumpSell 5000
                    (word_of_int \<bar>quoteSell (uint (5000::uint64)) (snapshot 1000000 1000000000) r\<bar>)
                    (sell_accounts ''fee'' ''mint'' curve ''ata:user'' (PublicKey example_user)))
                = None
            \<longrightarrow> SellToken_instructions example_lib ''fee'' client example_user ''mint'' 5000 0 False
                = Return [SetComputeUnitLimit 250000, SetComputeUnitPrice 10000,
                          PumpSell 5000
                            (word_of_int
                               \<bar>quoteSell (uint (5000::uint64)) (snapshot 1000000 1000000000) r\<bar>)
                            (sell_accounts ''fee'' ''mint'' curve ''ata:user''
                               (PublicKey example_user))]"
    by blast
  have r1: "r = 1" using r by (simp add: convertSlippage_0)
  have m: "(word_of_int \<bar>quoteSell (uint (5000::uint64)) (snapshot 1000000 1000000000) r\<bar> :: uint64)
             = 4"
    by (simp add: r1 example_quoteSell)
  have requested: "SellToken_instructions example_lib ''fee'' client example_user ''mint'' 5000 0 False
       = Return [SetComputeUnitLimit 250000, SetComputeUnitPrice 10000,
                 PumpSell 5000 4
                   (sell_accounts ''fee'' ''mint'' curve ''ata:user'' (PublicKey example_user))]"
    using imp ata der fet vt(1) s val unfolding m by simp
  have zero: "SellToken_instructions example_lib ''fee'' client example_user ''mint'' 1000 100 True
       = Return [SetComputeUnitLimit 250000, SetComputeUnitPrice 10000,
                 PumpSell 0 0
                   (sell_accounts ''fee'' ''mint'' curve ''ata:user'' (PublicKey example_user))]"
    using SellToken_instructions_list
      [of example_lib "''fee''" client example_user "''mint''" 1000 100 True "[]"
        "''ata:user''" 0 curve "snapshot 1000000 1000000000"]
      ata bal der fet vt(2) val
    by blast
  show ?thesis
    using requested zero by (simp add: client_def curve_def example_user_def)
qed

end
